theory Spec2Isabelle
  imports Main "HOL-Library.Word"
begin

unbundle bit_operations_syntax

section \<open>Platform types\<close>

text \<open>
  The mod \<^verbatim>\<open>explorerFontEditor.cpp\<close> runs inside \<^verbatim>\<open>explorer.exe\<close> and talks to GDI and
  USER through handles. Handles are opaque; they are natural numbers here and \<open>0\<close> is the
  null handle. C's \<^verbatim>\<open>int\<close> and \<^verbatim>\<open>LONG\<close> are 32-bit words read through \<open>sint\<close>.
\<close>

type_synonym BYTE = "8 word"
type_synonym WORD = "16 word"
type_synonym WCHAR = "16 word"
type_synonym DWORD = "32 word"
type_synonym COLORREF = "32 word"
type_synonym INT32 = "32 word"
type_synonym LONG = "32 word"
type_synonym HDC = nat
type_synonym HWND = nat
type_synonym HGDIOBJ = nat
type_synonym HFONT = nat
type_synonym HMODULE = nat
type_synonym FARPROC = nat

text \<open>A wide string literal \<^verbatim>\<open>L"..."\<close>: one UTF-16 code unit for each (ASCII) character.\<close>

definition wstr :: "string \<Rightarrow> WCHAR list" where
  "wstr s = map (\<lambda>c. of_nat (of_char c)) s"

text \<open>
  Modelled from the spec: the \<^verbatim>\<open>LOGFONTW\<close> structure is declared in the platform headers,
  not in the source file. It is the font description of the spec: a face name in a fixed
  buffer of 32 wide characters, plus the other rendering attributes, which the mod reads
  and passes through. A font description is valid when its face-name buffer has its 32
  code units.
\<close>

record LOGFONTW =
  lfHeight :: LONG
  lfWidth :: LONG
  lfEscapement :: LONG
  lfOrientation :: LONG
  lfWeight :: LONG
  lfItalic :: BYTE
  lfUnderline :: BYTE
  lfStrikeOut :: BYTE
  lfCharSet :: BYTE
  lfOutPrecision :: BYTE
  lfClipPrecision :: BYTE
  lfQuality :: BYTE
  lfPitchAndFamily :: BYTE
  lfFaceName :: "WCHAR list"

definition LF_FACESIZE :: nat where
  "LF_FACESIZE = 32"

definition valid_LOGFONTW :: "LOGFONTW \<Rightarrow> bool" where
  "valid_LOGFONTW font = (length (lfFaceName font) = LF_FACESIZE)"

text \<open>\<^verbatim>\<open>LOGFONTW{0}\<close>: every member zero.\<close>

definition zero_LOGFONTW :: LOGFONTW where
  "zero_LOGFONTW =
     \<lparr>lfHeight = 0, lfWidth = 0, lfEscapement = 0, lfOrientation = 0, lfWeight = 0,
      lfItalic = 0, lfUnderline = 0, lfStrikeOut = 0, lfCharSet = 0, lfOutPrecision = 0,
      lfClipPrecision = 0, lfQuality = 0, lfPitchAndFamily = 0,
      lfFaceName = replicate LF_FACESIZE 0\<rparr>"

section \<open>Raw memory of a wide-character buffer\<close>

text \<open>
  \<^verbatim>\<open>std::memset\<close> and \<^verbatim>\<open>std::memcpy\<close> count bytes, and a \<^verbatim>\<open>WCHAR\<close> is two of them
  (little-endian on every Windows target). The buffer is therefore taken apart into its
  bytes, written, and read back as code units.
\<close>

definition sizeof_WCHAR :: nat where
  "sizeof_WCHAR = 2"

definition wchar_bytes :: "WCHAR \<Rightarrow> BYTE list" where
  "wchar_bytes w = [ucast w, ucast (drop_bit 8 w)]"

definition object_bytes :: "WCHAR list \<Rightarrow> BYTE list" where
  "object_bytes ws = concat (map wchar_bytes ws)"

fun wchars_of_bytes :: "BYTE list \<Rightarrow> WCHAR list" where
  "wchars_of_bytes (lo # hi # bs) = (ucast lo OR push_bit 8 (ucast hi)) # wchars_of_bytes bs"
| "wchars_of_bytes _ = []"

text \<open>
  \<open>memset dst c n\<close> sets the first \<open>n\<close> bytes of \<open>dst\<close> to \<open>c\<close>; \<open>memcpy dst src n\<close>
  copies the first \<open>n\<close> bytes of \<open>src\<close> over those of \<open>dst\<close>. Both need \<open>n\<close> bytes to be
  there (anything else is undefined behaviour in C); the source stays within a 64-byte
  face-name buffer, as it passes 32 to the first and at most 62 to the second.
\<close>

definition memset :: "BYTE list \<Rightarrow> BYTE \<Rightarrow> nat \<Rightarrow> BYTE list" where
  "memset dst c n = replicate n c @ drop n dst"

definition memcpy :: "BYTE list \<Rightarrow> BYTE list \<Rightarrow> nat \<Rightarrow> BYTE list" where
  "memcpy dst src n = take n src @ drop n dst"

section \<open>Process state\<close>

text \<open>
  The globals of namespace \<^verbatim>\<open>util\<close>: the settings snapshot read by the hooks.
\<close>

record settings =
  s_font_name :: "WCHAR list"
  s_custom_color :: bool
  s_text_r :: INT32
  s_text_g :: INT32
  s_text_b :: INT32

text \<open>
  The initial values of the globals, before the first \<^verbatim>\<open>update_settings\<close>; the string
  setting holds no name yet.
\<close>

definition initial_settings :: settings where
  "initial_settings =
     \<lparr>s_font_name = [], s_custom_color = True, s_text_r = 255, s_text_g = 255, s_text_b = 255\<rparr>"

text \<open>
  What a call does to the outside is recorded in order: every platform call with its
  arguments, and every line given to \<^verbatim>\<open>Wh_Log\<close>.
\<close>

datatype log_entry =
  Font_name_too_long "WCHAR list" nat
| Uninit

record draw_text_args =
  lpchText :: nat
  cchText :: INT32
  lprc :: nat
  format :: DWORD

record draw_text_ex_args = draw_text_args +
  lpdtp :: nat

datatype api_call =
  GetCurrentObject_call HDC
| GetObjectW_call HGDIOBJ
| is_CreateFontIndirectW: CreateFontIndirectW_call LOGFONTW HFONT
| SelectObject_call HDC HGDIOBJ
| is_DeleteObject: DeleteObject_call HGDIOBJ
| is_SetTextColor: SetTextColor_call HDC COLORREF
| is_GetBkColor: GetBkColor_call HDC
| is_WindowFromDC: WindowFromDC_call HDC
| is_GetClassNameW: GetClassNameW_call HWND
| is_GetParent: GetParent_call HWND
| is_DrawTextW: DrawTextW_original_call HDC draw_text_args INT32
| is_DrawTextExW: DrawTextExW_original_call HDC draw_text_ex_args INT32

text \<open>
  The platform itself is a parameter: the environment \<open>'e\<close> is whatever GDI and USER keep
  (device contexts, windows, font objects), the queries read it and the other calls
  change it. \<open>GetObjectW\<close> gives \<open>None\<close> when it fails and leaves the caller's structure
  as it was. \<open>GetClassNameW\<close> gives the class name that the call leaves in the caller's
  256-unit buffer, as the \<^verbatim>\<open>std::wstring_view\<close> built from that buffer reads it.
  The source does not look at the result of the call and uses one buffer for the window
  and for each of its ancestors: the name read for a window is its class when the call
  succeeds, and whatever the buffer held before when it fails.
\<close>

record 'e platform =
  GetCurrentObject :: "'e \<Rightarrow> HDC \<Rightarrow> HGDIOBJ"
  GetObjectW :: "'e \<Rightarrow> HGDIOBJ \<Rightarrow> LOGFONTW option"
  CreateFontIndirectW :: "LOGFONTW \<Rightarrow> 'e \<Rightarrow> HFONT \<times> 'e"
  SelectObject :: "HDC \<Rightarrow> HGDIOBJ \<Rightarrow> 'e \<Rightarrow> 'e"
  DeleteObject :: "HGDIOBJ \<Rightarrow> 'e \<Rightarrow> 'e"
  SetTextColor :: "HDC \<Rightarrow> COLORREF \<Rightarrow> 'e \<Rightarrow> 'e"
  GetBkColor :: "'e \<Rightarrow> HDC \<Rightarrow> COLORREF"
  WindowFromDC :: "'e \<Rightarrow> HDC \<Rightarrow> HWND"
  GetClassNameW :: "'e \<Rightarrow> HWND \<Rightarrow> WCHAR list"
  GetParent :: "'e \<Rightarrow> HWND \<Rightarrow> HWND"

record 'e proc =
  env :: 'e
  calls :: "api_call list"
  wh_log :: "log_entry list"

definition called :: "api_call \<Rightarrow> 'e proc \<Rightarrow> 'e proc" where
  "called c s = s\<lparr>calls := calls s @ [c]\<rparr>"

definition Wh_Log :: "log_entry \<Rightarrow> 'e proc \<Rightarrow> 'e proc" where
  "Wh_Log l s = s\<lparr>wh_log := wh_log s @ [l]\<rparr>"

section \<open>The font synthesizer\<close>

text \<open>
  \<^verbatim>\<open>change_font_in_struct\<close> (lines 110 to 128). \<^verbatim>\<open>ARRAYSIZE(font->lfFaceName)\<close> is the
  number of elements of the array, \<open>LF_FACESIZE\<close>, and it is what the source passes to
  \<^verbatim>\<open>memset\<close> as the number of bytes.
\<close>

definition change_font_in_struct :: "settings \<Rightarrow> LOGFONTW \<Rightarrow> 'e proc \<Rightarrow> LOGFONTW \<times> 'e proc" where
  "change_font_in_struct cfg font s =
     (let font_name = s_font_name cfg in
      if font_name \<noteq> wstr ''None'' then
        if length font_name \<le> 31 then
          (let face_name = object_bytes (lfFaceName font);
               zeroed = memset face_name 0 LF_FACESIZE;
               written = memcpy zeroed (object_bytes font_name) (length font_name * sizeof_WCHAR)
           in (font\<lparr>lfFaceName := wchars_of_bytes written\<rparr>, s))
        else (font, Wh_Log (Font_name_too_long font_name (length font_name)) s)
      else (font, s))"

text \<open>
  The resource guard \<^verbatim>\<open>raii<T, Fn>\<close> (lines 90 to 105): built from a handle, it hands
  the handle out through \<^verbatim>\<open>get()\<close> and its destructor gives the handle to \<open>Fn\<close>. A
  destructor runs where the guard's scope ends; the model calls it there.
\<close>

datatype 'h raii = raii (m_handle: 'h)

definition raii_get :: "'h raii \<Rightarrow> 'h" where
  "raii_get g = m_handle g"

definition raii_dtor :: "('h \<Rightarrow> 's \<Rightarrow> 's) \<Rightarrow> 'h raii \<Rightarrow> 's \<Rightarrow> 's" where
  "raii_dtor Fn g s = Fn (m_handle g) s"

type_synonym unique_hfont_t = "HFONT raii"

text \<open>Each platform call, recorded as it is made.\<close>

definition api_GetCurrentObject :: "'e platform \<Rightarrow> HDC \<Rightarrow> 'e proc \<Rightarrow> HGDIOBJ \<times> 'e proc" where
  "api_GetCurrentObject P hdc s = (GetCurrentObject P (env s) hdc, called (GetCurrentObject_call hdc) s)"

definition api_GetObjectW :: "'e platform \<Rightarrow> HGDIOBJ \<Rightarrow> 'e proc \<Rightarrow> LOGFONTW option \<times> 'e proc" where
  "api_GetObjectW P h s = (GetObjectW P (env s) h, called (GetObjectW_call h) s)"

definition api_CreateFontIndirectW :: "'e platform \<Rightarrow> LOGFONTW \<Rightarrow> 'e proc \<Rightarrow> HFONT \<times> 'e proc" where
  "api_CreateFontIndirectW P font s =
     (let (h, e) = CreateFontIndirectW P font (env s)
      in (h, called (CreateFontIndirectW_call font h) (s\<lparr>env := e\<rparr>)))"

definition api_SelectObject :: "'e platform \<Rightarrow> HDC \<Rightarrow> HGDIOBJ \<Rightarrow> 'e proc \<Rightarrow> 'e proc" where
  "api_SelectObject P hdc h s = called (SelectObject_call hdc h) (s\<lparr>env := SelectObject P hdc h (env s)\<rparr>)"

definition api_DeleteObject :: "'e platform \<Rightarrow> HGDIOBJ \<Rightarrow> 'e proc \<Rightarrow> 'e proc" where
  "api_DeleteObject P h s = called (DeleteObject_call h) (s\<lparr>env := DeleteObject P h (env s)\<rparr>)"

definition api_SetTextColor :: "'e platform \<Rightarrow> HDC \<Rightarrow> COLORREF \<Rightarrow> 'e proc \<Rightarrow> 'e proc" where
  "api_SetTextColor P hdc c s = called (SetTextColor_call hdc c) (s\<lparr>env := SetTextColor P hdc c (env s)\<rparr>)"

definition api_GetBkColor :: "'e platform \<Rightarrow> HDC \<Rightarrow> 'e proc \<Rightarrow> COLORREF \<times> 'e proc" where
  "api_GetBkColor P hdc s = (GetBkColor P (env s) hdc, called (GetBkColor_call hdc) s)"

definition api_WindowFromDC :: "'e platform \<Rightarrow> HDC \<Rightarrow> 'e proc \<Rightarrow> HWND \<times> 'e proc" where
  "api_WindowFromDC P hdc s = (WindowFromDC P (env s) hdc, called (WindowFromDC_call hdc) s)"

definition api_GetClassNameW :: "'e platform \<Rightarrow> HWND \<Rightarrow> 'e proc \<Rightarrow> WCHAR list \<times> 'e proc" where
  "api_GetClassNameW P hwnd s = (GetClassNameW P (env s) hwnd, called (GetClassNameW_call hwnd) s)"

definition api_GetParent :: "'e platform \<Rightarrow> HWND \<Rightarrow> 'e proc \<Rightarrow> HWND \<times> 'e proc" where
  "api_GetParent P hwnd s = (GetParent P (env s) hwnd, called (GetParent_call hwnd) s)"

text \<open>\<^verbatim>\<open>hdc_update_font\<close> (lines 130 to 151).\<close>

definition hdc_update_font ::
  "'e platform \<Rightarrow> settings \<Rightarrow> HDC \<Rightarrow> 'e proc \<Rightarrow> (unique_hfont_t \<times> LOGFONTW) \<times> 'e proc" where
  "hdc_update_font P cfg hdc s =
     (let (h_font, s1) = api_GetCurrentObject P hdc s;
          (got, s2) = api_GetObjectW P h_font s1;
          font = (case got of None \<Rightarrow> zero_LOGFONTW | Some f \<Rightarrow> f);
          (font', s3) = change_font_in_struct cfg font s2;
          (h_new_font, s4) = api_CreateFontIndirectW P font' s3;
          s5 = api_SelectObject P hdc h_new_font s4
      in ((raii h_new_font, font'), s5))"

section \<open>Settings\<close>

text \<open>
  The settings store of the mod loader, read through \<^verbatim>\<open>Wh_GetIntSetting\<close> and (inside
  \<^verbatim>\<open>StringSetting::make\<close>) \<^verbatim>\<open>Wh_GetStringSetting\<close>. \<^verbatim>\<open>update_settings\<close> (lines 153 to
  159) replaces the five globals.
\<close>

record settings_store =
  Wh_GetIntSetting :: "WCHAR list \<Rightarrow> INT32"
  Wh_GetStringSetting :: "WCHAR list \<Rightarrow> WCHAR list"

definition update_settings :: "settings_store \<Rightarrow> settings" where
  "update_settings st =
     \<lparr>s_font_name = Wh_GetStringSetting st (wstr ''font.name''),
      s_custom_color = (Wh_GetIntSetting st (wstr ''font.customColor'') = 1),
      s_text_r = Wh_GetIntSetting st (wstr ''font.textR''),
      s_text_g = Wh_GetIntSetting st (wstr ''font.textG''),
      s_text_b = Wh_GetIntSetting st (wstr ''font.textB'')\<rparr>"

definition is_custom_color_enabled :: "settings \<Rightarrow> bool" where
  "is_custom_color_enabled cfg = s_custom_color cfg"

text \<open>
  Modelled from the spec: the colour macros \<^verbatim>\<open>RGB\<close>, \<^verbatim>\<open>GetRValue\<close>, \<^verbatim>\<open>GetGValue\<close> and
  \<^verbatim>\<open>GetBValue\<close> come from the platform headers. The source gives the packed format as
  \<^verbatim>\<open>0x00BBGGRR\<close>: red is the low byte, green the next, blue the third.
\<close>

definition RGB :: "BYTE \<Rightarrow> BYTE \<Rightarrow> BYTE \<Rightarrow> COLORREF" where
  "RGB r g b = ucast r OR push_bit 8 (ucast g) OR push_bit 16 (ucast b)"

definition GetRValue :: "COLORREF \<Rightarrow> BYTE" where
  "GetRValue c = ucast c"

definition GetGValue :: "COLORREF \<Rightarrow> BYTE" where
  "GetGValue c = ucast (drop_bit 8 c)"

definition GetBValue :: "COLORREF \<Rightarrow> BYTE" where
  "GetBValue c = ucast (drop_bit 16 c)"

text \<open>\<^verbatim>\<open>get_custom_text_color\<close> (lines 165 to 175).\<close>

definition get_custom_text_color :: "settings \<Rightarrow> COLORREF" where
  "get_custom_text_color cfg =
     (let r = (ucast (s_text_r cfg AND 0xff) :: BYTE);
          g = (ucast (s_text_g cfg AND 0xff) :: BYTE);
          b = (ucast (s_text_b cfg AND 0xff) :: BYTE)
      in RGB r g b)"

section \<open>The context classifier\<close>

text \<open>
  \<^verbatim>\<open>is_light_background\<close> (lines 178 to 191). The three components are C \<^verbatim>\<open>int\<close>s
  between 0 and 255, so the weighted sum is at most 255000 and the 32-bit arithmetic
  of the source never wraps; the division is between non-negative numbers.
\<close>

definition brightness_of :: "COLORREF \<Rightarrow> int" where
  "brightness_of bg_color =
     (let r = uint (GetRValue bg_color);
          g = uint (GetGValue bg_color);
          b = uint (GetBValue bg_color)
      in (r * 299 + g * 587 + b * 114) div 1000)"

definition is_light_background :: "'e platform \<Rightarrow> HDC \<Rightarrow> 'e proc \<Rightarrow> bool \<times> 'e proc" where
  "is_light_background P hdc s =
     (let (bg_color, s1) = api_GetBkColor P hdc s;
          brightness = brightness_of bg_color
      in (brightness > 128, s1))"

text \<open>
  \<^verbatim>\<open>is_explorer_file_view\<close> (lines 194 to 229). The loop \<^verbatim>\<open>for (int i = 0; i < 3; i++)\<close>
  is \<open>walk_parents\<close>, whose counter is the number of rounds still to run.
\<close>

fun walk_parents :: "'e platform \<Rightarrow> nat \<Rightarrow> HWND \<Rightarrow> 'e proc \<Rightarrow> bool \<times> 'e proc" where
  "walk_parents P 0 parent s = (False, s)"
| "walk_parents P (Suc n) parent s =
     (let (parent', s1) = api_GetParent P parent s in
      if parent' = 0 then (False, s1)
      else
        (let (parentClassName, s2) = api_GetClassNameW P parent' s1 in
         if parentClassName = wstr ''SHELLDLL_DefView'' then (True, s2)
         else walk_parents P n parent' s2))"

definition is_explorer_file_view :: "'e platform \<Rightarrow> HDC \<Rightarrow> 'e proc \<Rightarrow> bool \<times> 'e proc" where
  "is_explorer_file_view P hdc s =
     (let (hwnd, s1) = api_WindowFromDC P hdc s in
      if hwnd = 0 then (False, s1)
      else
        (let (classNameView, s2) = api_GetClassNameW P hwnd s1 in
         if classNameView = wstr ''DirectUIHWND'' \<or> classNameView = wstr ''SysListView32''
         then (True, s2)
         else walk_parents P 3 hwnd s2))"

section \<open>The interception layer\<close>

text \<open>
  C++'s \<^verbatim>\<open>a && b\<close> on operands that call the platform: \<open>b\<close> runs only when \<open>a\<close> gave true.
\<close>

definition cond_value :: "bool \<Rightarrow> 's \<Rightarrow> bool \<times> 's" where
  "cond_value x s = (x, s)"

definition cond_not :: "('s \<Rightarrow> bool \<times> 's) \<Rightarrow> 's \<Rightarrow> bool \<times> 's" where
  "cond_not a s = (let (x, s1) = a s in (\<not> x, s1))"

definition cond_and :: "('s \<Rightarrow> bool \<times> 's) \<Rightarrow> ('s \<Rightarrow> bool \<times> 's) \<Rightarrow> 's \<Rightarrow> bool \<times> 's" where
  "cond_and a b s = (let (x, s1) = a s in if x then b s1 else (False, s1))"

text \<open>
  The condition of both hooks (lines 249 to 250 and 269 to 270), and the statement it
  guards.
\<close>

definition color_override_applies :: "'e platform \<Rightarrow> settings \<Rightarrow> HDC \<Rightarrow> 'e proc \<Rightarrow> bool \<times> 'e proc" where
  "color_override_applies P cfg hdc =
     cond_and (cond_and (cond_value (is_custom_color_enabled cfg))
                        (cond_not (is_light_background P hdc)))
              (is_explorer_file_view P hdc)"

text \<open>
  The original functions are what \<^verbatim>\<open>Wh_SetFunctionHook\<close> stored in
  \<^verbatim>\<open>draw_textw_original\<close> and \<^verbatim>\<open>draw_text_exw_original\<close>: parameters here, free to
  change the environment and to return any value.
\<close>

type_synonym 'e draw_textw_t = "HDC \<Rightarrow> draw_text_args \<Rightarrow> 'e \<Rightarrow> INT32 \<times> 'e"
type_synonym 'e draw_text_exw_t = "HDC \<Rightarrow> draw_text_ex_args \<Rightarrow> 'e \<Rightarrow> INT32 \<times> 'e"

definition call_draw_textw_original ::
  "'e draw_textw_t \<Rightarrow> HDC \<Rightarrow> draw_text_args \<Rightarrow> 'e proc \<Rightarrow> INT32 \<times> 'e proc" where
  "call_draw_textw_original orig hdc args s =
     (let (r, e) = orig hdc args (env s)
      in (r, called (DrawTextW_original_call hdc args r) (s\<lparr>env := e\<rparr>)))"

definition call_draw_text_exw_original ::
  "'e draw_text_exw_t \<Rightarrow> HDC \<Rightarrow> draw_text_ex_args \<Rightarrow> 'e proc \<Rightarrow> INT32 \<times> 'e proc" where
  "call_draw_text_exw_original orig hdc args s =
     (let (r, e) = orig hdc args (env s)
      in (r, called (DrawTextExW_original_call hdc args r) (s\<lparr>env := e\<rparr>)))"

text \<open>
  \<^verbatim>\<open>draw_textw_hook\<close> (lines 238 to 255) and \<^verbatim>\<open>draw_text_exw_hook\<close> (lines 257 to 275).
  The guard \<^verbatim>\<open>h_new_font\<close> lives in the function's scope, so its destructor runs after
  the return value has been computed.
\<close>

definition draw_textw_hook ::
  "'e platform \<Rightarrow> settings \<Rightarrow> 'e draw_textw_t \<Rightarrow> HDC \<Rightarrow> draw_text_args \<Rightarrow> 'e proc \<Rightarrow> INT32 \<times> 'e proc" where
  "draw_textw_hook P cfg draw_textw_original hdc args s =
     (let ((h_new_font, _), s1) = hdc_update_font P cfg hdc s;
          (applies, s2) = color_override_applies P cfg hdc s1;
          s3 = (if applies then api_SetTextColor P hdc (get_custom_text_color cfg) s2 else s2);
          (result, s4) = call_draw_textw_original draw_textw_original hdc args s3;
          s5 = raii_dtor (api_DeleteObject P) h_new_font s4
      in (result, s5))"

definition draw_text_exw_hook ::
  "'e platform \<Rightarrow> settings \<Rightarrow> 'e draw_text_exw_t \<Rightarrow> HDC \<Rightarrow> draw_text_ex_args \<Rightarrow> 'e proc \<Rightarrow> INT32 \<times> 'e proc" where
  "draw_text_exw_hook P cfg draw_text_exw_original hdc args s =
     (let ((h_new_font, _), s1) = hdc_update_font P cfg hdc s;
          (applies, s2) = color_override_applies P cfg hdc s1;
          s3 = (if applies then api_SetTextColor P hdc (get_custom_text_color cfg) s2 else s2);
          (result, s4) = call_draw_text_exw_original draw_text_exw_original hdc args s3;
          s5 = raii_dtor (api_DeleteObject P) h_new_font s4
      in (result, s5))"

section \<open>The entry points of the mod\<close>

text \<open>
  \<^verbatim>\<open>Wh_ModInit\<close> (lines 277 to 296), \<^verbatim>\<open>Wh_ModSettingsChanged\<close> and \<^verbatim>\<open>Wh_ModUninit\<close>.
  The loader resolves modules and exported names; \<^verbatim>\<open>Wh_SetFunctionHook\<close> receives a
  target address and the replacement, and the requests are kept in the order made. Its
  return value is not looked at by the source, so it has none here.
\<close>

definition TRUE :: INT32 where
  "TRUE = 1"

definition FALSE :: INT32 where
  "FALSE = 0"

datatype hook_function = Draw_textw_hook | Draw_text_exw_hook

record loader =
  LoadLibraryW :: "WCHAR list \<Rightarrow> HMODULE"
  GetProcAddress :: "HMODULE \<Rightarrow> string \<Rightarrow> FARPROC"

record mod_state =
  globals :: settings
  hook_requests :: "(FARPROC \<times> hook_function) list"
  mod_log :: "log_entry list"

definition Wh_SetFunctionHook :: "FARPROC \<Rightarrow> hook_function \<Rightarrow> mod_state \<Rightarrow> mod_state" where
  "Wh_SetFunctionHook target hook m = m\<lparr>hook_requests := hook_requests m @ [(target, hook)]\<rparr>"

definition Wh_ModInit :: "settings_store \<Rightarrow> loader \<Rightarrow> mod_state \<Rightarrow> INT32 \<times> mod_state" where
  "Wh_ModInit st ld m =
     (let m1 = m\<lparr>globals := update_settings st\<rparr>;
          user32 = LoadLibraryW ld (wstr ''user32.dll'');
          draw_textw = GetProcAddress ld user32 ''DrawTextW'';
          m2 = Wh_SetFunctionHook draw_textw Draw_textw_hook m1;
          draw_text_exw = GetProcAddress ld user32 ''DrawTextExW'';
          m3 = Wh_SetFunctionHook draw_text_exw Draw_text_exw_hook m2
      in (TRUE, m3))"

definition Wh_ModSettingsChanged :: "settings_store \<Rightarrow> mod_state \<Rightarrow> mod_state" where
  "Wh_ModSettingsChanged st m = m\<lparr>globals := update_settings st\<rparr>"

definition Wh_ModUninit :: "mod_state \<Rightarrow> mod_state" where
  "Wh_ModUninit m = m\<lparr>mod_log := mod_log m @ [Uninit]\<rparr>"

section \<open>The classifier as the specification words it\<close>

text \<open>
  The \<open>k\<close>-th ancestor of a window, following parent links; the null window has no
  parent, and stays null.
\<close>

fun ancestor :: "'e platform \<Rightarrow> 'e \<Rightarrow> nat \<Rightarrow> HWND \<Rightarrow> HWND" where
  "ancestor P e 0 hwnd = hwnd"
| "ancestor P e (Suc k) hwnd = (if hwnd = 0 then 0 else ancestor P e k (GetParent P e hwnd))"

text \<open>Some ancestor at a level from 1 to \<open>n\<close> is the shell view host.\<close>

definition shell_view_within :: "'e platform \<Rightarrow> 'e \<Rightarrow> nat \<Rightarrow> HWND \<Rightarrow> bool" where
  "shell_view_within P e n hwnd =
     (\<exists>k \<in> {1..n}. ancestor P e k hwnd \<noteq> 0 \<and>
        GetClassNameW P e (ancestor P e k hwnd) = wstr ''SHELLDLL_DefView'')"

text \<open>
  The file-list surface of the specification: the device context has a window, and the
  window is one of the two list controls or has the shell view host among its first
  three ancestors.
\<close>

definition file_list_surface :: "'e platform \<Rightarrow> 'e \<Rightarrow> HDC \<Rightarrow> bool" where
  "file_list_surface P e hdc =
     (let hwnd = WindowFromDC P e hdc in
      hwnd \<noteq> 0 \<and>
      (GetClassNameW P e hwnd = wstr ''DirectUIHWND'' \<or>
       GetClassNameW P e hwnd = wstr ''SysListView32'' \<or>
       shell_view_within P e 3 hwnd))"

text \<open>
  The condition of the colour override in the words of the specification: the override
  is enabled, the background is not light, and the surface is a file-list view. When it
  holds in the environment left by the font update, the original function runs with the
  configured text colour set; when it does not, it runs in that environment as it is.
\<close>

definition color_override_verdict :: "'e platform \<Rightarrow> settings \<Rightarrow> 'e \<Rightarrow> HDC \<Rightarrow> bool" where
  "color_override_verdict P cfg e hdc =
     (s_custom_color cfg \<and> \<not> 128 < brightness_of (GetBkColor P e hdc) \<and> file_list_surface P e hdc)"

definition env_at_delegation :: "'e platform \<Rightarrow> settings \<Rightarrow> HDC \<Rightarrow> 'e proc \<Rightarrow> 'e" where
  "env_at_delegation P cfg hdc s =
     (let e1 = env (snd (hdc_update_font P cfg hdc s)) in
      if color_override_verdict P cfg e1 hdc
      then SetTextColor P hdc (get_custom_text_color cfg) e1
      else e1)"

text \<open>The calls a run added to the record, and the calls the classifier makes.\<close>

definition calls_made :: "'e proc \<Rightarrow> 'e proc \<Rightarrow> api_call list" where
  "calls_made s s' = drop (length (calls s)) (calls s')"

definition is_classifier_call :: "api_call \<Rightarrow> bool" where
  "is_classifier_call c =
     (is_GetBkColor c \<or> is_WindowFromDC c \<or> is_GetClassNameW c \<or> is_GetParent c)"

definition is_window_call :: "api_call \<Rightarrow> bool" where
  "is_window_call c = (is_WindowFromDC c \<or> is_GetClassNameW c \<or> is_GetParent c)"

definition is_font_lifecycle_call :: "api_call \<Rightarrow> bool" where
  "is_font_lifecycle_call c = (is_CreateFontIndirectW c \<or> is_DeleteObject c)"

section \<open>A small desktop for worked examples\<close>

text \<open>
  One device context with its selected font, colours and window; windows with class
  names and parents; the live font objects. \<open>CreateFontIndirectW\<close> hands out the next
  unused handle.
\<close>

record desktop =
  selected_font :: HGDIOBJ
  text_color :: COLORREF
  bk_color :: COLORREF
  dc_window :: HWND
  class_names :: "(HWND \<times> WCHAR list) list"
  parents :: "(HWND \<times> HWND) list"
  font_objects :: "(HGDIOBJ \<times> LOGFONTW) list"

definition desktop_platform :: "desktop platform" where
  "desktop_platform =
     \<lparr>GetCurrentObject = (\<lambda>e hdc. selected_font e),
      GetObjectW = (\<lambda>e h. map_of (font_objects e) h),
      CreateFontIndirectW = (\<lambda>font e.
        (let h = Suc (fold max (map fst (font_objects e)) 0)
         in (h, e\<lparr>font_objects := (h, font) # font_objects e\<rparr>))),
      SelectObject = (\<lambda>hdc h e. e\<lparr>selected_font := h\<rparr>),
      DeleteObject = (\<lambda>h e. e\<lparr>font_objects := filter (\<lambda>p. fst p \<noteq> h) (font_objects e)\<rparr>),
      SetTextColor = (\<lambda>hdc c e. e\<lparr>text_color := c\<rparr>),
      GetBkColor = (\<lambda>e hdc. bk_color e),
      WindowFromDC = (\<lambda>e hdc. dc_window e),
      GetClassNameW = (\<lambda>e hwnd. case map_of (class_names e) hwnd of None \<Rightarrow> [] | Some n \<Rightarrow> n),
      GetParent = (\<lambda>e hwnd. case map_of (parents e) hwnd of None \<Rightarrow> 0 | Some p \<Rightarrow> p)\<rparr>"

definition segoe_font :: LOGFONTW where
  "segoe_font = zero_LOGFONTW\<lparr>lfHeight := - 12, lfWeight := 400,
     lfFaceName := wstr ''Segoe UI Variable Display'' @ replicate 7 0\<rparr>"

definition arial_settings :: settings where
  "arial_settings = initial_settings\<lparr>s_font_name := wstr ''Arial''\<rparr>"

definition long_name_settings :: settings where
  "long_name_settings = initial_settings\<lparr>s_font_name := wstr ''Extraordinarily Long Family Name''\<rparr>"

definition red_settings :: settings where
  "red_settings = \<lparr>s_font_name = wstr ''None'', s_custom_color = True,
     s_text_r = 255, s_text_g = 0, s_text_b = 0\<rparr>"

definition disabled_settings :: settings where
  "disabled_settings = red_settings\<lparr>s_custom_color := False\<rparr>"

text \<open>
  A dark list view of Explorer: window 10 is a \<^verbatim>\<open>SysListView32\<close> under the shell view 11;
  and the same surface in front of a white background.
\<close>

definition dark_list_view :: desktop where
  "dark_list_view =
     \<lparr>selected_font = 1, text_color = RGB 0 0 0, bk_color = RGB 32 32 32, dc_window = 10,
      class_names = [(10, wstr ''SysListView32''), (11, wstr ''SHELLDLL_DefView'')],
      parents = [(10, 11)],
      font_objects = [(1, segoe_font)]\<rparr>"

definition light_list_view :: desktop where
  "light_list_view = dark_list_view\<lparr>bk_color := RGB 255 255 255\<rparr>"

text \<open>
  A static control (window 20) whose chain of parents is 21, 22, 23, 24: the shell view
  is 22 in the first desktop, and 24, the fourth ancestor, in the second. The third
  desktop draws into a memory device context, which has no window.
\<close>

definition nested_in_shell_view :: desktop where
  "nested_in_shell_view =
     \<lparr>selected_font = 1, text_color = RGB 0 0 0, bk_color = RGB 32 32 32, dc_window = 20,
      class_names = [(20, wstr ''Static''), (21, wstr ''CtrlNotifySink''),
        (22, wstr ''SHELLDLL_DefView''), (23, wstr ''ShellTabWindowClass''),
        (24, wstr ''CabinetWClass'')],
      parents = [(20, 21), (21, 22), (22, 23), (23, 24)],
      font_objects = [(1, segoe_font)]\<rparr>"

definition shell_view_too_far :: desktop where
  "shell_view_too_far =
     nested_in_shell_view\<lparr>class_names := [(20, wstr ''Static''), (21, wstr ''CtrlNotifySink''),
        (22, wstr ''DUIViewWndClassName''), (23, wstr ''ShellTabWindowClass''),
        (24, wstr ''SHELLDLL_DefView'')]\<rparr>"

definition memory_dc :: desktop where
  "memory_dc = dark_list_view\<lparr>dc_window := 0\<rparr>"

definition on_desktop :: "desktop \<Rightarrow> desktop proc" where
  "on_desktop e = \<lparr>env = e, calls = [], wh_log = []\<rparr>"

text \<open>An original function that reports the text colour it finds in the device context.\<close>

definition text_color_probe :: "HDC \<Rightarrow> 'a \<Rightarrow> desktop \<Rightarrow> INT32 \<times> desktop" where
  "text_color_probe hdc args e = (text_color e, e)"

definition some_args :: draw_text_args where
  "some_args = \<lparr>lpchText = 4096, cchText = - 1, lprc = 8192, format = 0x24\<rparr>"

definition some_ex_args :: draw_text_ex_args where
  "some_ex_args = \<lparr>lpchText = 4096, cchText = - 1, lprc = 8192, format = 0x24, lpdtp = 0\<rparr>"

text \<open>
  A settings store whose \<^verbatim>\<open>font.customColor\<close> is a given integer, a loader that finds
  the module and none of its exports, and the mod before its initialisation.
\<close>

definition store_with_custom_color :: "INT32 \<Rightarrow> settings_store" where
  "store_with_custom_color v =
     \<lparr>Wh_GetIntSetting = (\<lambda>key. if key = wstr ''font.customColor'' then v else 255),
      Wh_GetStringSetting = (\<lambda>key. wstr ''None'')\<rparr>"

definition loader_without_exports :: loader where
  "loader_without_exports = \<lparr>LoadLibraryW = (\<lambda>name. 1879048192), GetProcAddress = (\<lambda>m name. 0)\<rparr>"

definition unloaded_mod :: mod_state where
  "unloaded_mod = \<lparr>globals = initial_settings, hook_requests = [], mod_log = []\<rparr>"

section \<open>Colours\<close>

lemma GetRValue_RGB: "GetRValue (RGB r g b) = r"
  unfolding GetRValue_def RGB_def
  by (rule bit_word_eqI) (auto simp add: bit_simps)

lemma GetGValue_RGB: "GetGValue (RGB r g b) = g"
  unfolding GetGValue_def RGB_def
  by (rule bit_word_eqI) (auto simp add: bit_simps dest: bit_imp_le_length)

lemma GetBValue_RGB: "GetBValue (RGB r g b) = b"
  unfolding GetBValue_def RGB_def
  by (rule bit_word_eqI) (auto simp add: bit_simps dest: bit_imp_le_length)

lemma brightness_of_RGB:
  "brightness_of (RGB r g b) = (299 * uint r + 587 * uint g + 114 * uint b) div 1000"
  by (simp add: brightness_of_def GetRValue_RGB GetGValue_RGB GetBValue_RGB mult.commute)

text \<open>The brightness stays within a byte, far from the limits of a 32-bit \<^verbatim>\<open>int\<close>.\<close>

lemma brightness_of_range: "0 \<le> brightness_of c \<and> brightness_of c \<le> 255"
proof -
  have r: "uint (GetRValue c) < 256" using uint_bounded [of "GetRValue c"] by simp
  have g: "uint (GetGValue c) < 256" using uint_bounded [of "GetGValue c"] by simp
  have b: "uint (GetBValue c) < 256" using uint_bounded [of "GetBValue c"] by simp
  show ?thesis
    using r g b by (simp add: brightness_of_def Let_def pos_imp_zdiv_nonneg_iff)
qed

lemma is_light_background_run:
  "is_light_background P hdc s =
     (128 < brightness_of (GetBkColor P (env s) hdc), called (GetBkColor_call hdc) s)"
  by (simp add: is_light_background_def api_GetBkColor_def)

text \<open>
  Claim C5. \<open>is_light_background\<close> answers whether the luminance of the device context's
  background colour is strictly above 128, and the luminance of a colour with components
  \<open>r\<close>, \<open>g\<close>, \<open>b\<close> is \<open>(299 r + 587 g + 114 b) div 1000\<close>. In front of a white
  background the answer is true, in front of a black one false, and the grey
  (128, 128, 128) has luminance exactly 128 and gives false.
\<close>

theorem is_light_background_luminance:
  "fst (is_light_background P hdc s) = (128 < brightness_of (GetBkColor P (env s) hdc))
   \<and> brightness_of (RGB r g b) = (299 * uint r + 587 * uint g + 114 * uint b) div 1000
   \<and> fst (is_light_background (P\<lparr>GetBkColor := \<lambda>e d. RGB r g b\<rparr>) hdc s) =
       (128 < (299 * uint r + 587 * uint g + 114 * uint b) div 1000)
   \<and> fst (is_light_background (P\<lparr>GetBkColor := \<lambda>e d. RGB 255 255 255\<rparr>) hdc s)
   \<and> \<not> fst (is_light_background (P\<lparr>GetBkColor := \<lambda>e d. RGB 0 0 0\<rparr>) hdc s)
   \<and> brightness_of (RGB 128 128 128) = 128
   \<and> \<not> fst (is_light_background (P\<lparr>GetBkColor := \<lambda>e d. RGB 128 128 128\<rparr>) hdc s)"
  by (simp add: is_light_background_run brightness_of_RGB)

lemma ucast_and_ff: "(ucast ((x :: 32 word) AND 0xff) :: 8 word) = ucast x"
proof -
  have m: "(0xff :: 32 word) = mask 8" by (simp add: mask_eq_exp_minus_1)
  show ?thesis unfolding m
    by (rule bit_word_eqI) (auto simp add: bit_simps)
qed

lemma word8_of_int_mod_256: "(word_of_int (k mod 256) :: 8 word) = word_of_int k"
  by (simp add: word_of_int_eq_iff take_bit_eq_mod)

lemma scast_to_byte: "(scast (x :: 32 word) :: 8 word) = ucast x"
  by (rule bit_word_eqI) (auto simp add: bit_simps min_def)

lemma ucast_mod_256:
  "(ucast (word_of_int (sint (x :: 32 word) mod 256) :: 32 word) :: 8 word) = ucast x"
proof -
  have "(ucast (word_of_int (sint x mod 256) :: 32 word) :: 8 word) = word_of_int (sint x mod 256)"
    by (rule bit_word_eqI) (auto simp add: bit_simps)
  also have "\<dots> = word_of_int (sint x)"
    by (rule word8_of_int_mod_256)
  also have "\<dots> = ucast x"
    by (simp add: scast_to_byte)
  finally show ?thesis .
qed

lemma get_custom_text_color_eq:
  "get_custom_text_color cfg =
     RGB (ucast (s_text_r cfg)) (ucast (s_text_g cfg)) (ucast (s_text_b cfg))"
  by (simp add: get_custom_text_color_def ucast_and_ff)

text \<open>
  Claim C7. The colour composed by \<open>get_custom_text_color\<close> depends on the low 8 bits of
  each stored channel only: replacing every channel by its value modulo 256 gives the
  same colour, which is \<open>RGB\<close> of the three low bytes; a red of 300 gives the colour that
  a red of 44 gives.
\<close>

theorem get_custom_text_color_low_bytes:
  "get_custom_text_color (cfg\<lparr>s_text_r := r, s_text_g := g, s_text_b := b\<rparr>) =
     get_custom_text_color (cfg\<lparr>s_text_r := word_of_int (sint r mod 256),
       s_text_g := word_of_int (sint g mod 256), s_text_b := word_of_int (sint b mod 256)\<rparr>)
   \<and> get_custom_text_color (cfg\<lparr>s_text_r := r, s_text_g := g, s_text_b := b\<rparr>) =
     RGB (ucast r) (ucast g) (ucast b)
   \<and> get_custom_text_color (cfg\<lparr>s_text_r := 300\<rparr>) = get_custom_text_color (cfg\<lparr>s_text_r := 44\<rparr>)"
proof -
  have n: "(300 :: 8 word) = 44" by simp
  show ?thesis by (simp add: get_custom_text_color_eq ucast_mod_256 n)
qed

section \<open>The face name\<close>

lemma wstr_None_length: "length (wstr ''None'') = 4"
  by (simp add: wstr_def)

lemma wchar_of_its_bytes:
  "(ucast (ucast (w :: 16 word) :: 8 word) :: 16 word) OR
     push_bit 8 (ucast (ucast (drop_bit 8 w) :: 8 word)) = w"
  by (rule bit_word_eqI) (auto simp add: bit_simps)

lemma wchars_of_object_bytes: "wchars_of_bytes (object_bytes ws) = ws"
  by (induction ws) (simp_all add: object_bytes_def wchar_bytes_def wchar_of_its_bytes)

lemma object_bytes_Nil: "object_bytes [] = []"
  by (simp add: object_bytes_def)

lemma object_bytes_append: "object_bytes (a @ b) = object_bytes a @ object_bytes b"
  by (simp add: object_bytes_def)

lemma object_bytes_Cons: "object_bytes (w # ws) = wchar_bytes w @ object_bytes ws"
  by (simp add: object_bytes_def)

lemma length_object_bytes: "length (object_bytes ws) = 2 * length ws"
  by (induction ws) (simp_all add: object_bytes_def wchar_bytes_def)

lemma drop_object_bytes: "drop (2 * n) (object_bytes ws) = object_bytes (drop n ws)"
proof (induction ws arbitrary: n)
  case Nil
  then show ?case by (simp add: object_bytes_def)
next
  case (Cons w ws)
  then show ?case by (cases n) (simp_all add: object_bytes_Cons object_bytes_Nil wchar_bytes_def)
qed

lemma take_object_bytes: "take (2 * n) (object_bytes ws) = object_bytes (take n ws)"
proof (induction ws arbitrary: n)
  case Nil
  then show ?case by (simp add: object_bytes_def)
next
  case (Cons w ws)
  then show ?case by (cases n) (simp_all add: object_bytes_Cons object_bytes_Nil wchar_bytes_def)
qed

lemma object_bytes_zeros: "replicate (2 * n) 0 = object_bytes (replicate n 0)"
  by (induction n) (simp_all add: object_bytes_Cons object_bytes_Nil wchar_bytes_def)

text \<open>
  What the two memory calls leave in the face-name buffer: the override name, zeros up
  to code unit 16 where the name is shorter than that, and the old contents from there
  on.
\<close>

lemma change_font_in_struct_face_name:
  assumes "s_font_name cfg \<noteq> wstr ''None''" and "length (s_font_name cfg) \<le> 31"
  shows "change_font_in_struct cfg font s =
     (font\<lparr>lfFaceName := s_font_name cfg @
        drop (length (s_font_name cfg)) (replicate 16 0 @ drop 16 (lfFaceName font))\<rparr>, s)"
proof -
  let ?name = "s_font_name cfg"
  let ?old = "lfFaceName font"
  have z: "memset (object_bytes ?old) 0 LF_FACESIZE = object_bytes (replicate 16 0 @ drop 16 ?old)"
    using object_bytes_zeros [of 16] drop_object_bytes [of 16 ?old]
    by (simp add: memset_def LF_FACESIZE_def object_bytes_append)
  have t: "take (length ?name * sizeof_WCHAR) (object_bytes ?name) = object_bytes ?name"
    by (simp add: sizeof_WCHAR_def length_object_bytes)
  have n: "length ?name * sizeof_WCHAR = 2 * length ?name"
    by (simp add: sizeof_WCHAR_def)
  have d: "drop (length ?name * sizeof_WCHAR) (object_bytes (replicate 16 0 @ drop 16 ?old)) =
      object_bytes (drop (length ?name) (replicate 16 0 @ drop 16 ?old))"
    unfolding n by (rule drop_object_bytes)
  have w: "memcpy (object_bytes (replicate 16 0 @ drop 16 ?old)) (object_bytes ?name)
        (length ?name * sizeof_WCHAR) =
      object_bytes (?name @ drop (length ?name) (replicate 16 0 @ drop 16 ?old))"
    unfolding memcpy_def t d by (simp only: object_bytes_append)
  show ?thesis
    using assms by (simp add: change_font_in_struct_def Let_def z w wchars_of_object_bytes)
qed

text \<open>
  So the buffer is the name followed by zeros when the old buffer holds nothing past its
  first 16 code units, that is when the old face name had at most 16 characters.
\<close>

lemma change_font_in_struct_short_old_name:
  assumes "s_font_name cfg \<noteq> wstr ''None''" and "length (s_font_name cfg) \<le> 31"
    and "valid_LOGFONTW font" and "drop 16 (lfFaceName font) = replicate 16 0"
  shows "lfFaceName (fst (change_font_in_struct cfg font s)) =
     s_font_name cfg @ replicate (32 - length (s_font_name cfg)) 0"
proof -
  have "replicate 16 0 @ drop 16 (lfFaceName font) = replicate 32 (0 :: WCHAR)"
    using assms(4) by (simp add: replicate_add [symmetric])
  then show ?thesis
    using assms(1,2) by (simp add: change_font_in_struct_face_name)
qed

text \<open>
  Claim C6. When the override name is longer than 31 code units,
  \<open>change_font_in_struct\<close> returns the font description as it received it, face name
  and every other member, adds exactly one entry to the log, and changes nothing else.
\<close>

theorem change_font_in_struct_too_long:
  "31 < length (s_font_name cfg) \<Longrightarrow>
   change_font_in_struct cfg font s =
     (font, s\<lparr>wh_log := wh_log s @
        [Font_name_too_long (s_font_name cfg) (length (s_font_name cfg))]\<rparr>)"
  using wstr_None_length by (auto simp add: change_font_in_struct_def Wh_Log_def Let_def)

text \<open>
  A name of 32 code units, given to the font of the dark list view.
\<close>

theorem change_font_in_struct_too_long_witness:
  "31 < length (s_font_name long_name_settings) \<and>
   change_font_in_struct long_name_settings segoe_font (on_desktop dark_list_view) =
     (segoe_font, \<lparr>env = dark_list_view, calls = [],
        wh_log = [Font_name_too_long (wstr ''Extraordinarily Long Family Name'') 32]\<rparr>)"
proof -
  have h: "31 < length (s_font_name long_name_settings)"
    by (simp add: long_name_settings_def wstr_def)
  show ?thesis
    using h change_font_in_struct_too_long [OF h, of segoe_font "on_desktop dark_list_view"]
    by (simp add: long_name_settings_def on_desktop_def wstr_def)
qed

text \<open>
  Claim C1. The face name "Segoe UI Variable Display" has 25 code units. Overriding it
  with "Arial" clears the first 32 bytes of the buffer, that is 16 code units, and writes
  5: the code units 16 to 24 of the old name, "e Display", are still in the buffer, which
  is not "Arial" followed by 27 zeros.
\<close>

theorem change_font_in_struct_keeps_residue:
  "valid_LOGFONTW segoe_font
   \<and> length (s_font_name arial_settings) \<le> 31
   \<and> s_font_name arial_settings \<noteq> wstr ''None''
   \<and> lfFaceName (fst (change_font_in_struct arial_settings segoe_font (on_desktop dark_list_view))) =
       wstr ''Arial'' @ replicate 11 0 @ wstr ''e Display'' @ replicate 7 0
   \<and> lfFaceName (fst (change_font_in_struct arial_settings segoe_font (on_desktop dark_list_view))) \<noteq>
       wstr ''Arial'' @ replicate 27 0"
  by code_simp

section \<open>Initialisation\<close>

text \<open>
  Claim C9, as the code has it. With a loader that resolves neither export,
  \<open>Wh_ModInit\<close> asks for both hooks on the null address and returns \<open>TRUE\<close>.
\<close>

theorem Wh_ModInit_null_target:
  "GetProcAddress loader_without_exports
      (LoadLibraryW loader_without_exports (wstr ''user32.dll'')) ''DrawTextW'' = 0
   \<and> fst (Wh_ModInit (store_with_custom_color 1) loader_without_exports unloaded_mod) = TRUE
   \<and> fst (Wh_ModInit (store_with_custom_color 1) loader_without_exports unloaded_mod) \<noteq> FALSE
   \<and> hook_requests (snd (Wh_ModInit (store_with_custom_color 1) loader_without_exports unloaded_mod)) =
       [(0, Draw_textw_hook), (0, Draw_text_exw_hook)]"
  by (simp add: Wh_ModInit_def loader_without_exports_def unloaded_mod_def Wh_SetFunctionHook_def
      TRUE_def FALSE_def)

text \<open>
  Claim C9, amended. \<open>Wh_ModInit\<close> looks at no result: whatever the loader resolves, it
  loads the settings, asks for the two hooks on the two addresses it was given, in this
  order, and returns \<open>TRUE\<close>.
\<close>

theorem Wh_ModInit_always_succeeds:
  "fst (Wh_ModInit st ld m) = TRUE
   \<and> hook_requests (snd (Wh_ModInit st ld m)) = hook_requests m @
       [(GetProcAddress ld (LoadLibraryW ld (wstr ''user32.dll'')) ''DrawTextW'', Draw_textw_hook),
        (GetProcAddress ld (LoadLibraryW ld (wstr ''user32.dll'')) ''DrawTextExW'', Draw_text_exw_hook)]
   \<and> globals (snd (Wh_ModInit st ld m)) = update_settings st"
  by (simp add: Wh_ModInit_def Wh_SetFunctionHook_def Let_def)

section \<open>The file-list classification\<close>

lemma ancestor_null: "ancestor P e k 0 = 0"
  by (cases k) simp_all

lemma shell_view_within_0: "shell_view_within P e 0 hwnd = False"
  by (simp add: shell_view_within_def)

lemma shell_view_within_Suc:
  assumes "hwnd \<noteq> 0"
  shows "shell_view_within P e (Suc n) hwnd =
     (GetParent P e hwnd \<noteq> 0 \<and>
      (GetClassNameW P e (GetParent P e hwnd) = wstr ''SHELLDLL_DefView'' \<or>
       shell_view_within P e n (GetParent P e hwnd)))"
proof -
  let ?q = "GetParent P e hwnd"
  let ?Q = "\<lambda>w. w \<noteq> 0 \<and> GetClassNameW P e w = wstr ''SHELLDLL_DefView''"
  have "shell_view_within P e (Suc n) hwnd = (\<exists>k \<in> {1..Suc n}. ?Q (ancestor P e k hwnd))"
    by (simp add: shell_view_within_def)
  also have "\<dots> = (\<exists>j \<in> {0..n}. ?Q (ancestor P e (Suc j) hwnd))"
  proof
    assume "\<exists>k \<in> {1..Suc n}. ?Q (ancestor P e k hwnd)"
    then obtain k where k: "k \<in> {1..Suc n}" "?Q (ancestor P e k hwnd)" by blast
    then obtain j where "k = Suc j" by (cases k) auto
    with k assms show "\<exists>j \<in> {0..n}. ?Q (ancestor P e (Suc j) hwnd)" by auto
  next
    assume "\<exists>j \<in> {0..n}. ?Q (ancestor P e (Suc j) hwnd)"
    then obtain j where "j \<in> {0..n}" "?Q (ancestor P e (Suc j) hwnd)" by blast
    with assms have "Suc j \<in> {1..Suc n}" "?Q (ancestor P e (Suc j) hwnd)" by auto
    then show "\<exists>k \<in> {1..Suc n}. ?Q (ancestor P e k hwnd)" by blast
  qed
  also have "\<dots> = (\<exists>j \<in> {0..n}. ?Q (ancestor P e j ?q))"
    using assms by simp
  also have "\<dots> = (?Q ?q \<or> (\<exists>j \<in> {1..n}. ?Q (ancestor P e j ?q)))"
  proof
    assume "\<exists>j \<in> {0..n}. ?Q (ancestor P e j ?q)"
    then obtain j where j: "j \<in> {0..n}" "?Q (ancestor P e j ?q)" by blast
    show "?Q ?q \<or> (\<exists>j \<in> {1..n}. ?Q (ancestor P e j ?q))"
    proof (cases j)
      case 0
      with j show ?thesis by simp
    next
      case (Suc i)
      with j have "j \<in> {1..n}" by simp
      with j show ?thesis by blast
    qed
  next
    assume "?Q ?q \<or> (\<exists>j \<in> {1..n}. ?Q (ancestor P e j ?q))"
    then show "\<exists>j \<in> {0..n}. ?Q (ancestor P e j ?q)"
    proof
      assume "?Q ?q"
      then have "?Q (ancestor P e 0 ?q)" by simp
      then show ?thesis by (intro bexI [of _ 0]) simp_all
    next
      assume "\<exists>j \<in> {1..n}. ?Q (ancestor P e j ?q)"
      then obtain j where "j \<in> {1..n}" "?Q (ancestor P e j ?q)" by blast
      then show ?thesis by (intro bexI [of _ j]) simp_all
    qed
  qed
  also have "\<dots> = (?q \<noteq> 0 \<and> (GetClassNameW P e ?q = wstr ''SHELLDLL_DefView'' \<or>
       shell_view_within P e n ?q))"
  proof (cases "?q = 0")
    case True
    then show ?thesis by (simp add: ancestor_null)
  next
    case False
    then show ?thesis by (simp add: shell_view_within_def)
  qed
  finally show ?thesis .
qed

lemma walk_parents_run:
  "parent \<noteq> 0 \<Longrightarrow>
   \<exists>X. walk_parents P n parent s =
         (shell_view_within P (env s) n parent, s\<lparr>calls := calls s @ X\<rparr>) \<and>
       (\<forall>c \<in> set X. is_GetParent c \<or> is_GetClassNameW c)"
proof (induction n arbitrary: parent s)
  case 0
  have "walk_parents P 0 parent s = (shell_view_within P (env s) 0 parent, s\<lparr>calls := calls s @ []\<rparr>)"
    by (simp add: shell_view_within_0)
  then show ?case by (intro exI [of _ "[]"]) simp
next
  case (Suc n)
  let ?q = "GetParent P (env s) parent"
  let ?s1 = "called (GetParent_call parent) s"
  show ?case
  proof (cases "?q = 0")
    case True
    then have "walk_parents P (Suc n) parent s =
        (shell_view_within P (env s) (Suc n) parent, s\<lparr>calls := calls s @ [GetParent_call parent]\<rparr>)"
      using Suc.prems
      by (simp add: shell_view_within_Suc api_GetParent_def called_def)
    then show ?thesis by (intro exI [of _ "[GetParent_call parent]"]) simp
  next
    case False
    let ?s2 = "called (GetClassNameW_call ?q) ?s1"
    show ?thesis
    proof (cases "GetClassNameW P (env s) ?q = wstr ''SHELLDLL_DefView''")
      case True
      with False have "walk_parents P (Suc n) parent s =
          (shell_view_within P (env s) (Suc n) parent,
           s\<lparr>calls := calls s @ [GetParent_call parent, GetClassNameW_call ?q]\<rparr>)"
        using Suc.prems
        by (simp add: shell_view_within_Suc api_GetParent_def api_GetClassNameW_def called_def)
      then show ?thesis
        by (intro exI [of _ "[GetParent_call parent, GetClassNameW_call ?q]"]) simp
    next
      case nomatch: False
      from Suc.IH [OF False, of ?s2] obtain X where
        X: "walk_parents P n ?q ?s2 =
              (shell_view_within P (env ?s2) n ?q, ?s2\<lparr>calls := calls ?s2 @ X\<rparr>)"
           "\<forall>c \<in> set X. is_GetParent c \<or> is_GetClassNameW c"
        by blast
      have "walk_parents P (Suc n) parent s = walk_parents P n ?q ?s2"
        using False nomatch
        by (simp add: api_GetParent_def api_GetClassNameW_def called_def)
      with X(1) False nomatch Suc.prems
      have "walk_parents P (Suc n) parent s =
          (shell_view_within P (env s) (Suc n) parent,
           s\<lparr>calls := calls s @ (GetParent_call parent # GetClassNameW_call ?q # X)\<rparr>)"
        by (simp add: shell_view_within_Suc called_def)
      with X(2) show ?thesis
        by (intro exI [of _ "GetParent_call parent # GetClassNameW_call ?q # X"]) simp
    qed
  qed
qed

lemma is_explorer_file_view_run:
  "\<exists>X. is_explorer_file_view P hdc s =
         (file_list_surface P (env s) hdc, s\<lparr>calls := calls s @ WindowFromDC_call hdc # X\<rparr>) \<and>
       (\<forall>c \<in> set X. is_GetParent c \<or> is_GetClassNameW c)"
proof -
  let ?w = "WindowFromDC P (env s) hdc"
  let ?s1 = "called (WindowFromDC_call hdc) s"
  let ?s2 = "called (GetClassNameW_call ?w) ?s1"
  show ?thesis
  proof (cases "?w = 0")
    case True
    then have "is_explorer_file_view P hdc s =
        (file_list_surface P (env s) hdc, s\<lparr>calls := calls s @ WindowFromDC_call hdc # []\<rparr>)"
      by (simp add: is_explorer_file_view_def file_list_surface_def api_WindowFromDC_def called_def)
    then show ?thesis by (intro exI [of _ "[]"]) simp
  next
    case False
    show ?thesis
    proof (cases "GetClassNameW P (env s) ?w = wstr ''DirectUIHWND'' \<or>
                  GetClassNameW P (env s) ?w = wstr ''SysListView32''")
      case True
      with False have "is_explorer_file_view P hdc s =
          (file_list_surface P (env s) hdc,
           s\<lparr>calls := calls s @ WindowFromDC_call hdc # [GetClassNameW_call ?w]\<rparr>)"
        by (auto simp add: is_explorer_file_view_def file_list_surface_def api_WindowFromDC_def
            api_GetClassNameW_def called_def Let_def)
      then show ?thesis by (intro exI [of _ "[GetClassNameW_call ?w]"]) simp
    next
      case nomatch: False
      from walk_parents_run [OF False, of P 3 ?s2] obtain X where
        X: "walk_parents P 3 ?w ?s2 =
              (shell_view_within P (env ?s2) 3 ?w, ?s2\<lparr>calls := calls ?s2 @ X\<rparr>)"
           "\<forall>c \<in> set X. is_GetParent c \<or> is_GetClassNameW c"
        by blast
      have "is_explorer_file_view P hdc s = walk_parents P 3 ?w ?s2"
        using False nomatch
        by (simp add: is_explorer_file_view_def api_WindowFromDC_def api_GetClassNameW_def
            called_def Let_def)
      with X(1) False nomatch
      have "is_explorer_file_view P hdc s =
          (file_list_surface P (env s) hdc,
           s\<lparr>calls := calls s @ WindowFromDC_call hdc # (GetClassNameW_call ?w # X)\<rparr>)"
        by (simp add: file_list_surface_def called_def Let_def)
      with X(2) show ?thesis
        by (intro exI [of _ "GetClassNameW_call ?w # X"]) simp
    qed
  qed
qed

lemma walk_parents_links:
  "parent \<noteq> 0 \<Longrightarrow>
   \<exists>X. calls (snd (walk_parents P n parent s)) = calls s @ X \<and>
       length (filter is_GetParent X) \<le> n \<and>
       (\<forall>c \<in> set X. is_GetParent c \<longrightarrow>
          (\<exists>k < n. c = GetParent_call (ancestor P (env s) k parent)))"
proof (induction n arbitrary: parent s)
  case 0
  have "calls (snd (walk_parents P 0 parent s)) = calls s @ []" by simp
  then show ?case by (intro exI [of _ "[]"]) simp
next
  case (Suc n)
  let ?q = "GetParent P (env s) parent"
  let ?s1 = "called (GetParent_call parent) s"
  let ?s2 = "called (GetClassNameW_call ?q) ?s1"
  have first: "GetParent_call parent = GetParent_call (ancestor P (env s) 0 parent)" by simp
  show ?case
  proof (cases "?q = 0 \<or> GetClassNameW P (env s) ?q = wstr ''SHELLDLL_DefView''")
    case True
    show ?thesis
    proof (cases "?q = 0")
      case null: True
      then have c: "calls (snd (walk_parents P (Suc n) parent s)) = calls s @ [GetParent_call parent]"
        by (simp add: api_GetParent_def called_def)
      show ?thesis
      proof (intro exI [of _ "[GetParent_call parent]"] conjI)
        show "calls (snd (walk_parents P (Suc n) parent s)) = calls s @ [GetParent_call parent]"
          by (rule c)
        show "length (filter is_GetParent [GetParent_call parent]) \<le> Suc n" by simp
        show "\<forall>c \<in> set [GetParent_call parent]. is_GetParent c \<longrightarrow>
          (\<exists>k < Suc n. c = GetParent_call (ancestor P (env s) k parent))"
          using first by auto
      qed
    next
      case False
      with True have c: "calls (snd (walk_parents P (Suc n) parent s)) =
          calls s @ [GetParent_call parent, GetClassNameW_call ?q]"
        by (simp add: api_GetParent_def api_GetClassNameW_def called_def)
      show ?thesis
      proof (intro exI [of _ "[GetParent_call parent, GetClassNameW_call ?q]"] conjI)
        show "calls (snd (walk_parents P (Suc n) parent s)) =
          calls s @ [GetParent_call parent, GetClassNameW_call ?q]"
          by (rule c)
        show "length (filter is_GetParent [GetParent_call parent, GetClassNameW_call ?q]) \<le> Suc n"
          by simp
        show "\<forall>c \<in> set [GetParent_call parent, GetClassNameW_call ?q]. is_GetParent c \<longrightarrow>
          (\<exists>k < Suc n. c = GetParent_call (ancestor P (env s) k parent))"
          using first by auto
      qed
    qed
  next
    case False
    then have q: "?q \<noteq> 0" and nomatch: "GetClassNameW P (env s) ?q \<noteq> wstr ''SHELLDLL_DefView''"
      by simp_all
    from Suc.IH [OF q, of ?s2] obtain X where
      X: "calls (snd (walk_parents P n ?q ?s2)) = calls ?s2 @ X"
        "length (filter is_GetParent X) \<le> n"
        "\<forall>c \<in> set X. is_GetParent c \<longrightarrow>
          (\<exists>k < n. c = GetParent_call (ancestor P (env ?s2) k ?q))"
      by blast
    have step: "walk_parents P (Suc n) parent s = walk_parents P n ?q ?s2"
      using q nomatch by (simp add: api_GetParent_def api_GetClassNameW_def called_def)
    have e: "env ?s2 = env s" by (simp add: called_def)
    have up: "ancestor P (env s) k ?q = ancestor P (env s) (Suc k) parent" for k
      using Suc.prems by simp
    let ?Y = "GetParent_call parent # GetClassNameW_call ?q # X"
    have c: "calls (snd (walk_parents P (Suc n) parent s)) = calls s @ ?Y"
      unfolding step X(1) by (simp add: called_def)
    have l: "length (filter is_GetParent ?Y) \<le> Suc n"
      using X(2) by simp
    have m: "\<forall>c \<in> set ?Y. is_GetParent c \<longrightarrow>
          (\<exists>k < Suc n. c = GetParent_call (ancestor P (env s) k parent))"
    proof (intro ballI impI)
      fix c assume "c \<in> set ?Y" and g: "is_GetParent c"
      then have "c = GetParent_call parent \<or> c \<in> set X" by auto
      then show "\<exists>k < Suc n. c = GetParent_call (ancestor P (env s) k parent)"
      proof
        assume "c = GetParent_call parent"
        with first show ?thesis by blast
      next
        assume "c \<in> set X"
        with X(3) g obtain k where "k < n" "c = GetParent_call (ancestor P (env ?s2) k ?q)"
          by blast
        then have "Suc k < Suc n" "c = GetParent_call (ancestor P (env s) (Suc k) parent)"
          unfolding e up by simp_all
        then show ?thesis by blast
      qed
    qed
    show ?thesis
    proof (intro exI [of _ ?Y] conjI)
      show "calls (snd (walk_parents P (Suc n) parent s)) = calls s @ ?Y" by (rule c)
      show "length (filter is_GetParent ?Y) \<le> Suc n" by (rule l)
      show "\<forall>c \<in> set ?Y. is_GetParent c \<longrightarrow>
          (\<exists>k < Suc n. c = GetParent_call (ancestor P (env s) k parent))" by (rule m)
    qed
  qed
qed

text \<open>
  The parent links that \<open>is_explorer_file_view\<close> follows: at most three
  \<^verbatim>\<open>GetParent\<close> calls, each on the window or on one of its first two ancestors, and none
  when there is no window or the window's own class name decides.
\<close>

lemma is_explorer_file_view_links:
  "\<exists>X. calls (snd (is_explorer_file_view P hdc s)) = calls s @ X \<and>
       length (filter is_GetParent X) \<le> 3 \<and>
       (\<forall>c \<in> set X. is_GetParent c \<longrightarrow>
          (\<exists>k < 3. c = GetParent_call (ancestor P (env s) k (WindowFromDC P (env s) hdc)))) \<and>
       (WindowFromDC P (env s) hdc = 0 \<or>
        GetClassNameW P (env s) (WindowFromDC P (env s) hdc) = wstr ''DirectUIHWND'' \<or>
        GetClassNameW P (env s) (WindowFromDC P (env s) hdc) = wstr ''SysListView32''
        \<longrightarrow> filter is_GetParent X = [])"
proof -
  let ?w = "WindowFromDC P (env s) hdc"
  let ?s1 = "called (WindowFromDC_call hdc) s"
  let ?s2 = "called (GetClassNameW_call ?w) ?s1"
  show ?thesis
  proof (cases "?w = 0")
    case True
    then have "calls (snd (is_explorer_file_view P hdc s)) = calls s @ [WindowFromDC_call hdc]"
      by (simp add: is_explorer_file_view_def api_WindowFromDC_def called_def)
    then show ?thesis by (intro exI [of _ "[WindowFromDC_call hdc]"]) simp
  next
    case False
    show ?thesis
    proof (cases "GetClassNameW P (env s) ?w = wstr ''DirectUIHWND'' \<or>
                  GetClassNameW P (env s) ?w = wstr ''SysListView32''")
      case True
      with False have "calls (snd (is_explorer_file_view P hdc s)) =
          calls s @ [WindowFromDC_call hdc, GetClassNameW_call ?w]"
        by (auto simp add: is_explorer_file_view_def api_WindowFromDC_def
            api_GetClassNameW_def called_def Let_def)
      then show ?thesis
        by (intro exI [of _ "[WindowFromDC_call hdc, GetClassNameW_call ?w]"]) simp
    next
      case nomatch: False
      from walk_parents_links [OF False, of P 3 ?s2] obtain X where
        X: "calls (snd (walk_parents P 3 ?w ?s2)) = calls ?s2 @ X"
          "length (filter is_GetParent X) \<le> 3"
          "\<forall>c \<in> set X. is_GetParent c \<longrightarrow>
            (\<exists>k < 3. c = GetParent_call (ancestor P (env ?s2) k ?w))"
        by blast
      have e: "env ?s2 = env s" by (simp add: called_def)
      have step: "is_explorer_file_view P hdc s = walk_parents P 3 ?w ?s2"
        using False nomatch
        by (simp add: is_explorer_file_view_def api_WindowFromDC_def api_GetClassNameW_def
            called_def Let_def)
      let ?Y = "WindowFromDC_call hdc # GetClassNameW_call ?w # X"
      have c: "calls (snd (is_explorer_file_view P hdc s)) = calls s @ ?Y"
        unfolding step X(1) by (simp add: called_def)
      have l: "length (filter is_GetParent ?Y) \<le> 3"
        using X(2) by simp
      have m: "\<forall>c \<in> set ?Y. is_GetParent c \<longrightarrow>
            (\<exists>k < 3. c = GetParent_call (ancestor P (env s) k ?w))"
        using X(3) unfolding e by auto
      have v: "?w = 0 \<or> GetClassNameW P (env s) ?w = wstr ''DirectUIHWND'' \<or>
          GetClassNameW P (env s) ?w = wstr ''SysListView32'' \<longrightarrow> filter is_GetParent ?Y = []"
        using False nomatch by blast
      show ?thesis
      proof (intro exI [of _ ?Y] conjI)
        show "calls (snd (is_explorer_file_view P hdc s)) = calls s @ ?Y" by (rule c)
        show "length (filter is_GetParent ?Y) \<le> 3" by (rule l)
        show "\<forall>c \<in> set ?Y. is_GetParent c \<longrightarrow>
            (\<exists>k < 3. c = GetParent_call (ancestor P (env s) k ?w))" by (rule m)
        show "?w = 0 \<or> GetClassNameW P (env s) ?w = wstr ''DirectUIHWND'' \<or>
          GetClassNameW P (env s) ?w = wstr ''SysListView32'' \<longrightarrow> filter is_GetParent ?Y = []"
          by (rule v)
      qed
    qed
  qed
qed

text \<open>
  Claim C4. \<open>is_explorer_file_view\<close> answers whether the device context is a file-list
  surface and changes nothing. The class name of a window is here the name that the code
  reads from its buffer after \<^verbatim>\<open>GetClassNameW\<close> for that window, which is the window's
  class whenever that call succeeds. The answer is false when the device context has no
  window; true when the name read for the window is \<^verbatim>\<open>DirectUIHWND\<close> or
  \<^verbatim>\<open>SysListView32\<close>; otherwise true exactly when the name read for one of the first
  three ancestors is \<^verbatim>\<open>SHELLDLL_DefView\<close>; and so false when every ancestor with that
  name is at the fourth level or beyond. The walk follows at most three parent links:
  the run makes at most three \<^verbatim>\<open>GetParent\<close> calls, each on the window or on its first or
  second ancestor, and none at all when there is no window or the window's own name
  decides.
\<close>

theorem is_explorer_file_view_classification:
  "fst (is_explorer_file_view P hdc s) = file_list_surface P (env s) hdc
   \<and> env (snd (is_explorer_file_view P hdc s)) = env s
   \<and> (WindowFromDC P (env s) hdc = 0 \<longrightarrow> \<not> fst (is_explorer_file_view P hdc s))
   \<and> (WindowFromDC P (env s) hdc \<noteq> 0 \<and>
        (GetClassNameW P (env s) (WindowFromDC P (env s) hdc) = wstr ''DirectUIHWND'' \<or>
         GetClassNameW P (env s) (WindowFromDC P (env s) hdc) = wstr ''SysListView32'')
       \<longrightarrow> fst (is_explorer_file_view P hdc s))
   \<and> (WindowFromDC P (env s) hdc \<noteq> 0 \<and>
        GetClassNameW P (env s) (WindowFromDC P (env s) hdc) \<noteq> wstr ''DirectUIHWND'' \<and>
        GetClassNameW P (env s) (WindowFromDC P (env s) hdc) \<noteq> wstr ''SysListView32''
       \<longrightarrow> fst (is_explorer_file_view P hdc s) =
           (\<exists>k \<in> {1..3}. ancestor P (env s) k (WindowFromDC P (env s) hdc) \<noteq> 0 \<and>
              GetClassNameW P (env s) (ancestor P (env s) k (WindowFromDC P (env s) hdc)) =
                wstr ''SHELLDLL_DefView''))
   \<and> (GetClassNameW P (env s) (WindowFromDC P (env s) hdc) \<noteq> wstr ''DirectUIHWND'' \<and>
        GetClassNameW P (env s) (WindowFromDC P (env s) hdc) \<noteq> wstr ''SysListView32'' \<and>
        (\<forall>k. ancestor P (env s) k (WindowFromDC P (env s) hdc) \<noteq> 0 \<and>
           GetClassNameW P (env s) (ancestor P (env s) k (WindowFromDC P (env s) hdc)) =
             wstr ''SHELLDLL_DefView'' \<longrightarrow> 4 \<le> k)
       \<longrightarrow> \<not> fst (is_explorer_file_view P hdc s))
   \<and> calls (snd (is_explorer_file_view P hdc s)) = calls s @ calls_made s (snd (is_explorer_file_view P hdc s))
   \<and> length (filter is_GetParent (calls_made s (snd (is_explorer_file_view P hdc s)))) \<le> 3
   \<and> (\<forall>c \<in> set (calls_made s (snd (is_explorer_file_view P hdc s))). is_GetParent c \<longrightarrow>
        (\<exists>k < 3. c = GetParent_call (ancestor P (env s) k (WindowFromDC P (env s) hdc))))
   \<and> ((WindowFromDC P (env s) hdc) = 0 \<or>
        GetClassNameW P (env s) (WindowFromDC P (env s) hdc) = wstr ''DirectUIHWND'' \<or>
        GetClassNameW P (env s) (WindowFromDC P (env s) hdc) = wstr ''SysListView32''
       \<longrightarrow> filter is_GetParent (calls_made s (snd (is_explorer_file_view P hdc s))) = [])"
proof -
  from is_explorer_file_view_run [of P hdc s] obtain X where
    run: "is_explorer_file_view P hdc s =
      (file_list_surface P (env s) hdc, s\<lparr>calls := calls s @ WindowFromDC_call hdc # X\<rparr>)"
    by blast
  have verdict: "fst (is_explorer_file_view P hdc s) = file_list_surface P (env s) hdc"
    by (simp add: run)
  have unchanged: "env (snd (is_explorer_file_view P hdc s)) = env s"
    by (simp add: run)
  have far: "\<not> file_list_surface P (env s) hdc"
    if "GetClassNameW P (env s) (WindowFromDC P (env s) hdc) \<noteq> wstr ''DirectUIHWND''"
      and "GetClassNameW P (env s) (WindowFromDC P (env s) hdc) \<noteq> wstr ''SysListView32''"
      and "\<forall>k. ancestor P (env s) k (WindowFromDC P (env s) hdc) \<noteq> 0 \<and>
           GetClassNameW P (env s) (ancestor P (env s) k (WindowFromDC P (env s) hdc)) =
             wstr ''SHELLDLL_DefView'' \<longrightarrow> 4 \<le> k"
  proof
    assume "file_list_surface P (env s) hdc"
    with that(1,2) have "shell_view_within P (env s) 3 (WindowFromDC P (env s) hdc)"
      by (simp add: file_list_surface_def Let_def)
    then obtain k where "k \<in> {1..3}"
      "ancestor P (env s) k (WindowFromDC P (env s) hdc) \<noteq> 0"
      "GetClassNameW P (env s) (ancestor P (env s) k (WindowFromDC P (env s) hdc)) =
         wstr ''SHELLDLL_DefView''"
      unfolding shell_view_within_def by blast
    with that(3) show False by fastforce
  qed
  have classified:
    "fst (is_explorer_file_view P hdc s) = file_list_surface P (env s) hdc
   \<and> env (snd (is_explorer_file_view P hdc s)) = env s
   \<and> (WindowFromDC P (env s) hdc = 0 \<longrightarrow> \<not> fst (is_explorer_file_view P hdc s))
   \<and> (WindowFromDC P (env s) hdc \<noteq> 0 \<and>
        (GetClassNameW P (env s) (WindowFromDC P (env s) hdc) = wstr ''DirectUIHWND'' \<or>
         GetClassNameW P (env s) (WindowFromDC P (env s) hdc) = wstr ''SysListView32'')
       \<longrightarrow> fst (is_explorer_file_view P hdc s))
   \<and> (WindowFromDC P (env s) hdc \<noteq> 0 \<and>
        GetClassNameW P (env s) (WindowFromDC P (env s) hdc) \<noteq> wstr ''DirectUIHWND'' \<and>
        GetClassNameW P (env s) (WindowFromDC P (env s) hdc) \<noteq> wstr ''SysListView32''
       \<longrightarrow> fst (is_explorer_file_view P hdc s) =
           (\<exists>k \<in> {1..3}. ancestor P (env s) k (WindowFromDC P (env s) hdc) \<noteq> 0 \<and>
              GetClassNameW P (env s) (ancestor P (env s) k (WindowFromDC P (env s) hdc)) =
                wstr ''SHELLDLL_DefView''))
   \<and> (GetClassNameW P (env s) (WindowFromDC P (env s) hdc) \<noteq> wstr ''DirectUIHWND'' \<and>
        GetClassNameW P (env s) (WindowFromDC P (env s) hdc) \<noteq> wstr ''SysListView32'' \<and>
        (\<forall>k. ancestor P (env s) k (WindowFromDC P (env s) hdc) \<noteq> 0 \<and>
           GetClassNameW P (env s) (ancestor P (env s) k (WindowFromDC P (env s) hdc)) =
             wstr ''SHELLDLL_DefView'' \<longrightarrow> 4 \<le> k)
       \<longrightarrow> \<not> fst (is_explorer_file_view P hdc s))"
    unfolding verdict unchanged
    using far by (auto simp add: file_list_surface_def shell_view_within_def Let_def)
  from is_explorer_file_view_links [of P hdc s] obtain Y where
    c: "calls (snd (is_explorer_file_view P hdc s)) = calls s @ Y"
    and l: "length (filter is_GetParent Y) \<le> 3"
    and m: "\<forall>c \<in> set Y. is_GetParent c \<longrightarrow>
          (\<exists>k < 3. c = GetParent_call (ancestor P (env s) k (WindowFromDC P (env s) hdc)))"
    and v: "WindowFromDC P (env s) hdc = 0 \<or>
        GetClassNameW P (env s) (WindowFromDC P (env s) hdc) = wstr ''DirectUIHWND'' \<or>
        GetClassNameW P (env s) (WindowFromDC P (env s) hdc) = wstr ''SysListView32''
        \<longrightarrow> filter is_GetParent Y = []"
    by blast
  have cm: "calls_made s (snd (is_explorer_file_view P hdc s)) = Y"
    by (simp add: calls_made_def c)
  have walked:
    "calls (snd (is_explorer_file_view P hdc s)) = calls s @ calls_made s (snd (is_explorer_file_view P hdc s))
   \<and> length (filter is_GetParent (calls_made s (snd (is_explorer_file_view P hdc s)))) \<le> 3
   \<and> (\<forall>c \<in> set (calls_made s (snd (is_explorer_file_view P hdc s))). is_GetParent c \<longrightarrow>
        (\<exists>k < 3. c = GetParent_call (ancestor P (env s) k (WindowFromDC P (env s) hdc))))
   \<and> ((WindowFromDC P (env s) hdc) = 0 \<or>
        GetClassNameW P (env s) (WindowFromDC P (env s) hdc) = wstr ''DirectUIHWND'' \<or>
        GetClassNameW P (env s) (WindowFromDC P (env s) hdc) = wstr ''SysListView32''
       \<longrightarrow> filter is_GetParent (calls_made s (snd (is_explorer_file_view P hdc s))) = [])"
    unfolding cm using c l m v by (intro conjI)
  note a1 = classified [THEN conjunct1]
  note a2 = classified [THEN conjunct2, THEN conjunct1]
  note a3 = classified [THEN conjunct2, THEN conjunct2, THEN conjunct1]
  note a4 = classified [THEN conjunct2, THEN conjunct2, THEN conjunct2, THEN conjunct1]
  note a5 = classified [THEN conjunct2, THEN conjunct2, THEN conjunct2, THEN conjunct2, THEN conjunct1]
  note a6 = classified [THEN conjunct2, THEN conjunct2, THEN conjunct2, THEN conjunct2, THEN conjunct2]
  note b1 = walked [THEN conjunct1]
  note b2 = walked [THEN conjunct2, THEN conjunct1]
  note b3 = walked [THEN conjunct2, THEN conjunct2, THEN conjunct1]
  note b4 = walked [THEN conjunct2, THEN conjunct2, THEN conjunct2]
  show ?thesis
    by (intro conjI) (fact a1 a2 a3 a4 a5 a6 b1 b2 b3 b4)+
qed

text \<open>
  On the small desktop: the memory device context is not a file-list surface, the list
  view is one by its own class, the static control two levels below the shell view is
  one by its second ancestor, and the static control whose fourth ancestor is the shell
  view is not. No parent link is followed for the first two, and three are
  followed for the last: from the window, from its parent and from its grandparent.
\<close>

theorem is_explorer_file_view_classification_witness:
  "WindowFromDC desktop_platform memory_dc 5 = 0
   \<and> \<not> fst (is_explorer_file_view desktop_platform 5 (on_desktop memory_dc))
   \<and> GetClassNameW desktop_platform dark_list_view (WindowFromDC desktop_platform dark_list_view 5) =
       wstr ''SysListView32''
   \<and> fst (is_explorer_file_view desktop_platform 5 (on_desktop dark_list_view))
   \<and> ancestor desktop_platform nested_in_shell_view 2 (WindowFromDC desktop_platform nested_in_shell_view 5) = 22
   \<and> GetClassNameW desktop_platform nested_in_shell_view 22 = wstr ''SHELLDLL_DefView''
   \<and> fst (is_explorer_file_view desktop_platform 5 (on_desktop nested_in_shell_view))
   \<and> ancestor desktop_platform shell_view_too_far 4 (WindowFromDC desktop_platform shell_view_too_far 5) = 24
   \<and> GetClassNameW desktop_platform shell_view_too_far 24 = wstr ''SHELLDLL_DefView''
   \<and> \<not> fst (is_explorer_file_view desktop_platform 5 (on_desktop shell_view_too_far))
   \<and> filter is_GetParent (calls_made (on_desktop memory_dc) (snd (is_explorer_file_view desktop_platform 5 (on_desktop memory_dc)))) = []
   \<and> filter is_GetParent (calls_made (on_desktop dark_list_view) (snd (is_explorer_file_view desktop_platform 5 (on_desktop dark_list_view)))) = []
   \<and> length (filter is_GetParent (calls_made (on_desktop shell_view_too_far) (snd (is_explorer_file_view desktop_platform 5 (on_desktop shell_view_too_far))))) \<le> 3
   \<and> filter is_GetParent (calls_made (on_desktop shell_view_too_far) (snd (is_explorer_file_view desktop_platform 5 (on_desktop shell_view_too_far)))) =
       [GetParent_call 20, GetParent_call 21, GetParent_call 22]"
proof -
  have e [simp]: "env (on_desktop d) = d" for d by (simp add: on_desktop_def)
  have m: "WindowFromDC desktop_platform memory_dc 5 = 0" by code_simp
  have d1: "WindowFromDC desktop_platform dark_list_view 5 \<noteq> 0" by code_simp
  have d2: "GetClassNameW desktop_platform dark_list_view (WindowFromDC desktop_platform dark_list_view 5) =
       wstr ''SysListView32''" by code_simp
  have n1: "WindowFromDC desktop_platform nested_in_shell_view 5 \<noteq> 0" by code_simp
  have n2: "GetClassNameW desktop_platform nested_in_shell_view
       (WindowFromDC desktop_platform nested_in_shell_view 5) \<noteq> wstr ''DirectUIHWND''" by code_simp
  have n3: "GetClassNameW desktop_platform nested_in_shell_view
       (WindowFromDC desktop_platform nested_in_shell_view 5) \<noteq> wstr ''SysListView32''" by code_simp
  have n4: "ancestor desktop_platform nested_in_shell_view 2
       (WindowFromDC desktop_platform nested_in_shell_view 5) = 22" by code_simp
  have n5: "GetClassNameW desktop_platform nested_in_shell_view 22 = wstr ''SHELLDLL_DefView''"
    by code_simp
  have n6: "\<exists>k \<in> {1..3}. ancestor desktop_platform nested_in_shell_view k
         (WindowFromDC desktop_platform nested_in_shell_view 5) \<noteq> 0 \<and>
       GetClassNameW desktop_platform nested_in_shell_view
         (ancestor desktop_platform nested_in_shell_view k
           (WindowFromDC desktop_platform nested_in_shell_view 5)) = wstr ''SHELLDLL_DefView''"
    using n4 n5 by (intro bexI [of _ 2]) simp_all
  have f1: "GetClassNameW desktop_platform shell_view_too_far
       (WindowFromDC desktop_platform shell_view_too_far 5) \<noteq> wstr ''DirectUIHWND''" by code_simp
  have f2: "GetClassNameW desktop_platform shell_view_too_far
       (WindowFromDC desktop_platform shell_view_too_far 5) \<noteq> wstr ''SysListView32''" by code_simp
  have f3: "ancestor desktop_platform shell_view_too_far 4
       (WindowFromDC desktop_platform shell_view_too_far 5) = 24" by code_simp
  have f4: "GetClassNameW desktop_platform shell_view_too_far 24 = wstr ''SHELLDLL_DefView''"
    by code_simp
  have k0: "GetClassNameW desktop_platform shell_view_too_far
       (ancestor desktop_platform shell_view_too_far 0
         (WindowFromDC desktop_platform shell_view_too_far 5)) \<noteq> wstr ''SHELLDLL_DefView''"
    by code_simp
  have k1: "GetClassNameW desktop_platform shell_view_too_far
       (ancestor desktop_platform shell_view_too_far 1
         (WindowFromDC desktop_platform shell_view_too_far 5)) \<noteq> wstr ''SHELLDLL_DefView''"
    by code_simp
  have k2: "GetClassNameW desktop_platform shell_view_too_far
       (ancestor desktop_platform shell_view_too_far 2
         (WindowFromDC desktop_platform shell_view_too_far 5)) \<noteq> wstr ''SHELLDLL_DefView''"
    by code_simp
  have k3: "GetClassNameW desktop_platform shell_view_too_far
       (ancestor desktop_platform shell_view_too_far 3
         (WindowFromDC desktop_platform shell_view_too_far 5)) \<noteq> wstr ''SHELLDLL_DefView''"
    by code_simp
  have f5: "\<forall>k. ancestor desktop_platform shell_view_too_far k
         (WindowFromDC desktop_platform shell_view_too_far 5) \<noteq> 0 \<and>
       GetClassNameW desktop_platform shell_view_too_far
         (ancestor desktop_platform shell_view_too_far k
           (WindowFromDC desktop_platform shell_view_too_far 5)) = wstr ''SHELLDLL_DefView''
       \<longrightarrow> 4 \<le> k"
  proof (intro allI impI, rule ccontr)
    fix k
    assume a: "ancestor desktop_platform shell_view_too_far k
         (WindowFromDC desktop_platform shell_view_too_far 5) \<noteq> 0 \<and>
       GetClassNameW desktop_platform shell_view_too_far
         (ancestor desktop_platform shell_view_too_far k
           (WindowFromDC desktop_platform shell_view_too_far 5)) = wstr ''SHELLDLL_DefView''"
      and "\<not> 4 \<le> k"
    then have "k = 0 \<or> k = 1 \<or> k = 2 \<or> k = 3" by arith
    with a k0 k1 k2 k3 show False by blast
  qed
  note t1 = is_explorer_file_view_classification [of desktop_platform 5 "on_desktop memory_dc"]
  note t2 = is_explorer_file_view_classification [of desktop_platform 5 "on_desktop dark_list_view"]
  note t3 = is_explorer_file_view_classification [of desktop_platform 5 "on_desktop nested_in_shell_view"]
  note t4 = is_explorer_file_view_classification [of desktop_platform 5 "on_desktop shell_view_too_far"]
  have r1: "\<not> fst (is_explorer_file_view desktop_platform 5 (on_desktop memory_dc))"
    using t1 [unfolded e] m by blast
  have r2: "fst (is_explorer_file_view desktop_platform 5 (on_desktop dark_list_view))"
    using t2 [unfolded e] d1 d2 by blast
  have r3: "fst (is_explorer_file_view desktop_platform 5 (on_desktop nested_in_shell_view))"
    using t3 [unfolded e] n1 n2 n3 n6 by blast
  have r4: "\<not> fst (is_explorer_file_view desktop_platform 5 (on_desktop shell_view_too_far))"
    using t4 [unfolded e] f1 f2 f5 by blast
  have w1: "filter is_GetParent (calls_made (on_desktop memory_dc) (snd (is_explorer_file_view desktop_platform 5 (on_desktop memory_dc)))) = []"
    using t1 [unfolded e] m by blast
  have w2: "filter is_GetParent (calls_made (on_desktop dark_list_view) (snd (is_explorer_file_view desktop_platform 5 (on_desktop dark_list_view)))) = []"
    using t2 [unfolded e] d2 by blast
  have w3: "length (filter is_GetParent (calls_made (on_desktop shell_view_too_far) (snd (is_explorer_file_view desktop_platform 5 (on_desktop shell_view_too_far))))) \<le> 3"
    using t4 by blast
  have w4: "filter is_GetParent (calls_made (on_desktop shell_view_too_far) (snd (is_explorer_file_view desktop_platform 5 (on_desktop shell_view_too_far)))) =
       [GetParent_call 20, GetParent_call 21, GetParent_call 22]"
    by code_simp
  show ?thesis using m d2 n4 n5 f3 f4 r1 r2 r3 r4 w1 w2 w3 w4 by simp
qed

section \<open>The resource guard\<close>

text \<open>
  A guard gives back the handle it was built from, and its destructor releases that
  handle once and does nothing else.
\<close>

lemma raii_get_raii: "raii_get (raii h) = h"
  by (simp add: raii_get_def)

lemma unique_hfont_dtor:
  "raii_dtor (api_DeleteObject P) (raii h) s =
     s\<lparr>env := DeleteObject P h (env s), calls := calls s @ [DeleteObject_call h]\<rparr>"
  by (simp add: raii_dtor_def api_DeleteObject_def called_def)

section \<open>One hooked draw call\<close>

lemma change_font_in_struct_state:
  "\<exists>l. snd (change_font_in_struct cfg font s) = s\<lparr>wh_log := l\<rparr>"
proof (cases "s_font_name cfg \<noteq> wstr ''None'' \<and> \<not> length (s_font_name cfg) \<le> 31")
  case True
  then have "snd (change_font_in_struct cfg font s) =
      s\<lparr>wh_log := wh_log s @ [Font_name_too_long (s_font_name cfg) (length (s_font_name cfg))]\<rparr>"
    by (simp add: change_font_in_struct_def Wh_Log_def Let_def)
  then show ?thesis by blast
next
  case False
  then have "snd (change_font_in_struct cfg font s) = s\<lparr>wh_log := wh_log s\<rparr>"
    by (auto simp add: change_font_in_struct_def Let_def)
  then show ?thesis by blast
qed

lemma hdc_update_font_run:
  "\<exists>h font e l. hdc_update_font P cfg hdc s =
     ((raii h, font),
      \<lparr>env = e,
       calls = calls s @ [GetCurrentObject_call hdc,
         GetObjectW_call (GetCurrentObject P (env s) hdc),
         CreateFontIndirectW_call font h, SelectObject_call hdc h],
       wh_log = l\<rparr>)"
proof -
  let ?h_font = "GetCurrentObject P (env s) hdc"
  let ?s2 = "called (GetObjectW_call ?h_font) (called (GetCurrentObject_call hdc) s)"
  let ?font = "case GetObjectW P (env s) ?h_font of None \<Rightarrow> zero_LOGFONTW | Some f \<Rightarrow> f"
  obtain font' s3 where c: "change_font_in_struct cfg ?font ?s2 = (font', s3)"
    by (cases "change_font_in_struct cfg ?font ?s2") blast
  from change_font_in_struct_state [of cfg ?font ?s2] c obtain l where s3: "s3 = ?s2\<lparr>wh_log := l\<rparr>"
    by auto
  obtain h e where k: "CreateFontIndirectW P font' (env s) = (h, e)"
    by (cases "CreateFontIndirectW P font' (env s)") blast
  have "hdc_update_font P cfg hdc s =
     ((raii h, font'),
      \<lparr>env = SelectObject P hdc h e,
       calls = calls s @ [GetCurrentObject_call hdc, GetObjectW_call ?h_font,
         CreateFontIndirectW_call font' h, SelectObject_call hdc h],
       wh_log = l\<rparr>)"
    using c k
    by (simp add: hdc_update_font_def api_GetCurrentObject_def api_GetObjectW_def
        api_CreateFontIndirectW_def api_SelectObject_def called_def s3 Let_def)
  then show ?thesis by blast
qed

lemma color_override_applies_run:
  "\<exists>X. color_override_applies P cfg hdc s =
         (color_override_verdict P cfg (env s) hdc, s\<lparr>calls := calls s @ X\<rparr>) \<and>
       (\<not> is_custom_color_enabled cfg \<longrightarrow> X = []) \<and>
       (is_custom_color_enabled cfg \<and> 128 < brightness_of (GetBkColor P (env s) hdc) \<longrightarrow>
          X = [GetBkColor_call hdc]) \<and>
       (is_custom_color_enabled cfg \<and> \<not> 128 < brightness_of (GetBkColor P (env s) hdc) \<longrightarrow>
          (\<exists>Y. X = GetBkColor_call hdc # WindowFromDC_call hdc # Y \<and>
             (\<forall>c \<in> set Y. is_GetParent c \<or> is_GetClassNameW c)))"
proof (cases "is_custom_color_enabled cfg")
  case False
  then have "color_override_applies P cfg hdc s =
      (color_override_verdict P cfg (env s) hdc, s\<lparr>calls := calls s @ []\<rparr>)"
    by (simp add: color_override_applies_def cond_and_def cond_value_def
        color_override_verdict_def is_custom_color_enabled_def)
  with False show ?thesis by (intro exI [of _ "[]"]) simp
next
  case True
  let ?s1 = "called (GetBkColor_call hdc) s"
  show ?thesis
  proof (cases "128 < brightness_of (GetBkColor P (env s) hdc)")
    case light: True
    with True have "color_override_applies P cfg hdc s =
        (color_override_verdict P cfg (env s) hdc, s\<lparr>calls := calls s @ [GetBkColor_call hdc]\<rparr>)"
      by (simp add: color_override_applies_def cond_and_def cond_value_def cond_not_def
          color_override_verdict_def is_custom_color_enabled_def is_light_background_run called_def)
    with True light show ?thesis by (intro exI [of _ "[GetBkColor_call hdc]"]) simp
  next
    case dark: False
    from is_explorer_file_view_run [of P hdc ?s1] obtain Y where
      Y: "is_explorer_file_view P hdc ?s1 =
            (file_list_surface P (env ?s1) hdc, ?s1\<lparr>calls := calls ?s1 @ WindowFromDC_call hdc # Y\<rparr>)"
         "\<forall>c \<in> set Y. is_GetParent c \<or> is_GetClassNameW c"
      by blast
    have "color_override_applies P cfg hdc s = is_explorer_file_view P hdc ?s1"
      using True dark
      by (simp add: color_override_applies_def cond_and_def cond_value_def cond_not_def
          is_custom_color_enabled_def is_light_background_run)
    with Y(1) True dark have "color_override_applies P cfg hdc s =
        (color_override_verdict P cfg (env s) hdc,
         s\<lparr>calls := calls s @ (GetBkColor_call hdc # WindowFromDC_call hdc # Y)\<rparr>)"
      by (simp add: color_override_verdict_def is_custom_color_enabled_def called_def)
    with True dark Y(2) show ?thesis
      by (intro exI [of _ "GetBkColor_call hdc # WindowFromDC_call hdc # Y"]) simp
  qed
qed

lemma draw_textw_hook_run:
  obtains h font X where
    "fst (hdc_update_font P cfg hdc s) = (raii h, font)"
    "fst (draw_textw_hook P cfg orig hdc args s) =
       fst (orig hdc args (env_at_delegation P cfg hdc s))"
    "env (snd (draw_textw_hook P cfg orig hdc args s)) =
       DeleteObject P h (snd (orig hdc args (env_at_delegation P cfg hdc s)))"
    "calls (snd (draw_textw_hook P cfg orig hdc args s)) = calls s @
       ([GetCurrentObject_call hdc, GetObjectW_call (GetCurrentObject P (env s) hdc),
         CreateFontIndirectW_call font h, SelectObject_call hdc h] @ X @
        (if color_override_verdict P cfg (env (snd (hdc_update_font P cfg hdc s))) hdc
         then [SetTextColor_call hdc (get_custom_text_color cfg)] else []) @
        [DrawTextW_original_call hdc args (fst (orig hdc args (env_at_delegation P cfg hdc s))),
         DeleteObject_call h])"
    "\<not> is_custom_color_enabled cfg \<longrightarrow> X = []"
    "is_custom_color_enabled cfg \<and>
      128 < brightness_of (GetBkColor P (env (snd (hdc_update_font P cfg hdc s))) hdc) \<longrightarrow>
        X = [GetBkColor_call hdc]"
    "is_custom_color_enabled cfg \<and>
      \<not> 128 < brightness_of (GetBkColor P (env (snd (hdc_update_font P cfg hdc s))) hdc) \<longrightarrow>
        (\<exists>Y. X = GetBkColor_call hdc # WindowFromDC_call hdc # Y \<and>
           (\<forall>c \<in> set Y. is_GetParent c \<or> is_GetClassNameW c))"
proof -
  from hdc_update_font_run [of P cfg hdc s] obtain h font e l where
    F: "hdc_update_font P cfg hdc s =
     ((raii h, font),
      \<lparr>env = e,
       calls = calls s @ [GetCurrentObject_call hdc,
         GetObjectW_call (GetCurrentObject P (env s) hdc),
         CreateFontIndirectW_call font h, SelectObject_call hdc h],
       wh_log = l\<rparr>)"
    by blast
  let ?s1 = "\<lparr>env = e,
       calls = calls s @ [GetCurrentObject_call hdc,
         GetObjectW_call (GetCurrentObject P (env s) hdc),
         CreateFontIndirectW_call font h, SelectObject_call hdc h],
       wh_log = l\<rparr>"
  from color_override_applies_run [of P cfg hdc ?s1] obtain X where
    C: "color_override_applies P cfg hdc ?s1 =
         (color_override_verdict P cfg (env ?s1) hdc, ?s1\<lparr>calls := calls ?s1 @ X\<rparr>)"
    and X1: "\<not> is_custom_color_enabled cfg \<longrightarrow> X = []"
    and X2: "is_custom_color_enabled cfg \<and> 128 < brightness_of (GetBkColor P (env ?s1) hdc) \<longrightarrow>
          X = [GetBkColor_call hdc]"
    and X3: "is_custom_color_enabled cfg \<and> \<not> 128 < brightness_of (GetBkColor P (env ?s1) hdc) \<longrightarrow>
          (\<exists>Y. X = GetBkColor_call hdc # WindowFromDC_call hdc # Y \<and>
             (\<forall>c \<in> set Y. is_GetParent c \<or> is_GetClassNameW c))"
    by blast
  have hook: "draw_textw_hook P cfg orig hdc args s =
       (fst (orig hdc args (env_at_delegation P cfg hdc s)),
        (snd (hdc_update_font P cfg hdc s))
          \<lparr>env := DeleteObject P h (snd (orig hdc args (env_at_delegation P cfg hdc s))),
           calls := calls s @
             ([GetCurrentObject_call hdc, GetObjectW_call (GetCurrentObject P (env s) hdc),
              CreateFontIndirectW_call font h, SelectObject_call hdc h] @ X @
             (if color_override_verdict P cfg (env (snd (hdc_update_font P cfg hdc s))) hdc
              then [SetTextColor_call hdc (get_custom_text_color cfg)] else []) @
             [DrawTextW_original_call hdc args (fst (orig hdc args (env_at_delegation P cfg hdc s))),
              DeleteObject_call h])\<rparr>)"
    using C
    by (simp add: draw_textw_hook_def env_at_delegation_def F call_draw_textw_original_def
        api_SetTextColor_def raii_dtor_def api_DeleteObject_def called_def Let_def split_beta)
  have e1: "env (snd (hdc_update_font P cfg hdc s)) = env ?s1"
    by (simp add: F)
  show thesis
  proof (rule that [of h font X])
    show "fst (hdc_update_font P cfg hdc s) = (raii h, font)"
      by (simp add: F)
    show "fst (draw_textw_hook P cfg orig hdc args s) =
       fst (orig hdc args (env_at_delegation P cfg hdc s))"
      by (simp add: hook)
    show "env (snd (draw_textw_hook P cfg orig hdc args s)) =
       DeleteObject P h (snd (orig hdc args (env_at_delegation P cfg hdc s)))"
      by (simp add: hook)
    show "calls (snd (draw_textw_hook P cfg orig hdc args s)) = calls s @
       ([GetCurrentObject_call hdc, GetObjectW_call (GetCurrentObject P (env s) hdc),
         CreateFontIndirectW_call font h, SelectObject_call hdc h] @ X @
        (if color_override_verdict P cfg (env (snd (hdc_update_font P cfg hdc s))) hdc
         then [SetTextColor_call hdc (get_custom_text_color cfg)] else []) @
        [DrawTextW_original_call hdc args (fst (orig hdc args (env_at_delegation P cfg hdc s))),
         DeleteObject_call h])"
      by (simp add: hook)
  qed (use X1 X2 X3 e1 in simp_all)
qed

lemma draw_text_exw_hook_run:
  obtains h font X where
    "fst (hdc_update_font P cfg hdc s) = (raii h, font)"
    "fst (draw_text_exw_hook P cfg orig hdc args s) =
       fst (orig hdc args (env_at_delegation P cfg hdc s))"
    "env (snd (draw_text_exw_hook P cfg orig hdc args s)) =
       DeleteObject P h (snd (orig hdc args (env_at_delegation P cfg hdc s)))"
    "calls (snd (draw_text_exw_hook P cfg orig hdc args s)) = calls s @
       ([GetCurrentObject_call hdc, GetObjectW_call (GetCurrentObject P (env s) hdc),
         CreateFontIndirectW_call font h, SelectObject_call hdc h] @ X @
        (if color_override_verdict P cfg (env (snd (hdc_update_font P cfg hdc s))) hdc
         then [SetTextColor_call hdc (get_custom_text_color cfg)] else []) @
        [DrawTextExW_original_call hdc args (fst (orig hdc args (env_at_delegation P cfg hdc s))),
         DeleteObject_call h])"
    "\<not> is_custom_color_enabled cfg \<longrightarrow> X = []"
    "is_custom_color_enabled cfg \<and>
      128 < brightness_of (GetBkColor P (env (snd (hdc_update_font P cfg hdc s))) hdc) \<longrightarrow>
        X = [GetBkColor_call hdc]"
    "is_custom_color_enabled cfg \<and>
      \<not> 128 < brightness_of (GetBkColor P (env (snd (hdc_update_font P cfg hdc s))) hdc) \<longrightarrow>
        (\<exists>Y. X = GetBkColor_call hdc # WindowFromDC_call hdc # Y \<and>
           (\<forall>c \<in> set Y. is_GetParent c \<or> is_GetClassNameW c))"
proof -
  from hdc_update_font_run [of P cfg hdc s] obtain h font e l where
    F: "hdc_update_font P cfg hdc s =
     ((raii h, font),
      \<lparr>env = e,
       calls = calls s @ [GetCurrentObject_call hdc,
         GetObjectW_call (GetCurrentObject P (env s) hdc),
         CreateFontIndirectW_call font h, SelectObject_call hdc h],
       wh_log = l\<rparr>)"
    by blast
  let ?s1 = "\<lparr>env = e,
       calls = calls s @ [GetCurrentObject_call hdc,
         GetObjectW_call (GetCurrentObject P (env s) hdc),
         CreateFontIndirectW_call font h, SelectObject_call hdc h],
       wh_log = l\<rparr>"
  from color_override_applies_run [of P cfg hdc ?s1] obtain X where
    C: "color_override_applies P cfg hdc ?s1 =
         (color_override_verdict P cfg (env ?s1) hdc, ?s1\<lparr>calls := calls ?s1 @ X\<rparr>)"
    and X1: "\<not> is_custom_color_enabled cfg \<longrightarrow> X = []"
    and X2: "is_custom_color_enabled cfg \<and> 128 < brightness_of (GetBkColor P (env ?s1) hdc) \<longrightarrow>
          X = [GetBkColor_call hdc]"
    and X3: "is_custom_color_enabled cfg \<and> \<not> 128 < brightness_of (GetBkColor P (env ?s1) hdc) \<longrightarrow>
          (\<exists>Y. X = GetBkColor_call hdc # WindowFromDC_call hdc # Y \<and>
             (\<forall>c \<in> set Y. is_GetParent c \<or> is_GetClassNameW c))"
    by blast
  have hook: "draw_text_exw_hook P cfg orig hdc args s =
       (fst (orig hdc args (env_at_delegation P cfg hdc s)),
        (snd (hdc_update_font P cfg hdc s))
          \<lparr>env := DeleteObject P h (snd (orig hdc args (env_at_delegation P cfg hdc s))),
           calls := calls s @
             ([GetCurrentObject_call hdc, GetObjectW_call (GetCurrentObject P (env s) hdc),
              CreateFontIndirectW_call font h, SelectObject_call hdc h] @ X @
             (if color_override_verdict P cfg (env (snd (hdc_update_font P cfg hdc s))) hdc
              then [SetTextColor_call hdc (get_custom_text_color cfg)] else []) @
             [DrawTextExW_original_call hdc args (fst (orig hdc args (env_at_delegation P cfg hdc s))),
              DeleteObject_call h])\<rparr>)"
    using C
    by (simp add: draw_text_exw_hook_def env_at_delegation_def F call_draw_text_exw_original_def
        api_SetTextColor_def raii_dtor_def api_DeleteObject_def called_def Let_def split_beta)
  have e1: "env (snd (hdc_update_font P cfg hdc s)) = env ?s1"
    by (simp add: F)
  show thesis
  proof (rule that [of h font X])
    show "fst (hdc_update_font P cfg hdc s) = (raii h, font)"
      by (simp add: F)
    show "fst (draw_text_exw_hook P cfg orig hdc args s) =
       fst (orig hdc args (env_at_delegation P cfg hdc s))"
      by (simp add: hook)
    show "env (snd (draw_text_exw_hook P cfg orig hdc args s)) =
       DeleteObject P h (snd (orig hdc args (env_at_delegation P cfg hdc s)))"
      by (simp add: hook)
    show "calls (snd (draw_text_exw_hook P cfg orig hdc args s)) = calls s @
       ([GetCurrentObject_call hdc, GetObjectW_call (GetCurrentObject P (env s) hdc),
         CreateFontIndirectW_call font h, SelectObject_call hdc h] @ X @
        (if color_override_verdict P cfg (env (snd (hdc_update_font P cfg hdc s))) hdc
         then [SetTextColor_call hdc (get_custom_text_color cfg)] else []) @
        [DrawTextExW_original_call hdc args (fst (orig hdc args (env_at_delegation P cfg hdc s))),
         DeleteObject_call h])"
      by (simp add: hook)
  qed (use X1 X2 X3 e1 in simp_all)
qed

lemma classifier_calls_only:
  assumes "\<not> en \<longrightarrow> X = []"
    and "en \<and> li \<longrightarrow> X = [GetBkColor_call hdc]"
    and "en \<and> \<not> li \<longrightarrow> (\<exists>Y. X = GetBkColor_call hdc # WindowFromDC_call hdc # Y \<and>
           (\<forall>c \<in> set Y. is_GetParent c \<or> is_GetClassNameW c))"
  shows "\<forall>c \<in> set X. is_classifier_call c"
proof (cases en)
  case False
  with assms(1) show ?thesis by simp
next
  case True
  show ?thesis
  proof (cases li)
    case True
    with \<open>en\<close> assms(2) show ?thesis by (simp add: is_classifier_call_def)
  next
    case False
    with \<open>en\<close> assms(3) obtain Y where "X = GetBkColor_call hdc # WindowFromDC_call hdc # Y"
      "\<forall>c \<in> set Y. is_GetParent c \<or> is_GetClassNameW c" by blast
    then show ?thesis by (auto simp add: is_classifier_call_def)
  qed
qed

lemma filter_all: "\<forall>c \<in> set X. p c \<Longrightarrow> filter p X = X"
  by (induction X) simp_all

lemma filter_none: "\<forall>c \<in> set X. \<not> p c \<Longrightarrow> filter p X = []"
  by (induction X) simp_all

lemma classifier_call_kinds:
  "is_classifier_call c \<Longrightarrow>
     \<not> is_font_lifecycle_call c \<and> \<not> is_SetTextColor c \<and> \<not> is_CreateFontIndirectW c \<and>
     \<not> is_DeleteObject c"
  by (cases c) (simp_all add: is_classifier_call_def is_font_lifecycle_call_def)

lemma calls_made_append: "calls s' = calls s @ N \<Longrightarrow> calls_made s s' = N"
  by (simp add: calls_made_def)

text \<open>The shape of the calls of one hooked draw call, common to both hooks.\<close>

lemma hook_calls_shape:
  assumes X: "\<forall>c \<in> set X. is_classifier_call c"
    and N: "N = [GetCurrentObject_call hdc, GetObjectW_call g,
              CreateFontIndirectW_call font h, SelectObject_call hdc h] @ X @
             (if v then [SetTextColor_call hdc col] else []) @ [orig_call, DeleteObject_call h]"
    and O: "\<not> is_classifier_call orig_call" "\<not> is_font_lifecycle_call orig_call"
      "\<not> is_SetTextColor orig_call"
  shows "filter is_font_lifecycle_call N = [CreateFontIndirectW_call font h, DeleteObject_call h]"
    and "filter is_classifier_call N = X"
    and "filter is_SetTextColor N = (if v then [SetTextColor_call hdc col] else [])"
    and "last N = DeleteObject_call h"
proof -
  have a: "filter is_font_lifecycle_call X = []"
    using X classifier_call_kinds by (intro filter_none) blast
  have b: "filter is_SetTextColor X = []"
    using X classifier_call_kinds by (intro filter_none) blast
  have c: "filter is_classifier_call X = X"
    using X by (rule filter_all)
  show "filter is_font_lifecycle_call N = [CreateFontIndirectW_call font h, DeleteObject_call h]"
    using O by (simp add: N a is_font_lifecycle_call_def)
  show "filter is_classifier_call N = X"
    using O by (simp add: N c is_classifier_call_def)
  show "filter is_SetTextColor N = (if v then [SetTextColor_call hdc col] else [])"
    using O by (simp add: N b)
  show "last N = DeleteObject_call h"
    by (simp add: N)
qed

text \<open>
  Claim C2. In a call of either hook, whatever the platform, the settings and the
  original function do, the calls that create or release a font are exactly two: one
  \<^verbatim>\<open>CreateFontIndirectW\<close>, and then one \<^verbatim>\<open>DeleteObject\<close> of the handle it returned, which
  is the handle the guard holds. The release is the last call of the hook, after the
  original function has returned.
\<close>

theorem hook_font_lifecycle:
  "(\<exists>h font.
      filter is_font_lifecycle_call
        (calls_made s (snd (draw_textw_hook P cfg orig hdc args s))) =
          [CreateFontIndirectW_call font h, DeleteObject_call h]
      \<and> last (calls (snd (draw_textw_hook P cfg orig hdc args s))) = DeleteObject_call h
      \<and> raii_get (fst (fst (hdc_update_font P cfg hdc s))) = h
      \<and> calls (snd (draw_textw_hook P cfg orig hdc args s)) =
          calls s @ calls_made s (snd (draw_textw_hook P cfg orig hdc args s)))
   \<and> (\<exists>h font.
      filter is_font_lifecycle_call
        (calls_made s (snd (draw_text_exw_hook P cfg orig_ex hdc args_ex s))) =
          [CreateFontIndirectW_call font h, DeleteObject_call h]
      \<and> last (calls (snd (draw_text_exw_hook P cfg orig_ex hdc args_ex s))) = DeleteObject_call h
      \<and> raii_get (fst (fst (hdc_update_font P cfg hdc s))) = h
      \<and> calls (snd (draw_text_exw_hook P cfg orig_ex hdc args_ex s)) =
          calls s @ calls_made s (snd (draw_text_exw_hook P cfg orig_ex hdc args_ex s)))"
proof -
  {
    let ?s' = "snd (draw_textw_hook P cfg orig hdc args s)"
    obtain h font X where
      f: "fst (hdc_update_font P cfg hdc s) = (raii h, font)"
      and c: "calls ?s' = calls s @
             ([GetCurrentObject_call hdc, GetObjectW_call (GetCurrentObject P (env s) hdc),
              CreateFontIndirectW_call font h, SelectObject_call hdc h] @ X @
             (if color_override_verdict P cfg (env (snd (hdc_update_font P cfg hdc s))) hdc
              then [SetTextColor_call hdc (get_custom_text_color cfg)] else []) @
             [DrawTextW_original_call hdc args (fst (orig hdc args (env_at_delegation P cfg hdc s))),
              DeleteObject_call h])"
      and X: "\<not> is_custom_color_enabled cfg \<longrightarrow> X = []"
        "is_custom_color_enabled cfg \<and>
          128 < brightness_of (GetBkColor P (env (snd (hdc_update_font P cfg hdc s))) hdc) \<longrightarrow>
            X = [GetBkColor_call hdc]"
        "is_custom_color_enabled cfg \<and>
          \<not> 128 < brightness_of (GetBkColor P (env (snd (hdc_update_font P cfg hdc s))) hdc) \<longrightarrow>
          (\<exists>Y. X = GetBkColor_call hdc # WindowFromDC_call hdc # Y \<and>
             (\<forall>c \<in> set Y. is_GetParent c \<or> is_GetClassNameW c))"
      by (rule draw_textw_hook_run [of P cfg hdc s orig args])
    note cl = classifier_calls_only [OF X]
    note N = calls_made_append [OF c]
    have shape: "filter is_font_lifecycle_call (calls_made s ?s') =
        [CreateFontIndirectW_call font h, DeleteObject_call h]"
      by (rule hook_calls_shape(1) [OF cl N])
        (simp_all add: is_classifier_call_def is_font_lifecycle_call_def)
    have "last (calls ?s') = DeleteObject_call h" by (simp add: c)
    moreover have "raii_get (fst (fst (hdc_update_font P cfg hdc s))) = h"
      by (simp add: f raii_get_def)
    moreover have "calls ?s' = calls s @ calls_made s ?s'" by (simp only: N c)
    ultimately have "\<exists>h font.
      filter is_font_lifecycle_call (calls_made s ?s') =
          [CreateFontIndirectW_call font h, DeleteObject_call h]
      \<and> last (calls ?s') = DeleteObject_call h
      \<and> raii_get (fst (fst (hdc_update_font P cfg hdc s))) = h
      \<and> calls ?s' = calls s @ calls_made s ?s'"
      using shape by blast
  }
  note w = this
  {
    let ?s' = "snd (draw_text_exw_hook P cfg orig_ex hdc args_ex s)"
    obtain h font X where
      f: "fst (hdc_update_font P cfg hdc s) = (raii h, font)"
      and c: "calls ?s' = calls s @
             ([GetCurrentObject_call hdc, GetObjectW_call (GetCurrentObject P (env s) hdc),
              CreateFontIndirectW_call font h, SelectObject_call hdc h] @ X @
             (if color_override_verdict P cfg (env (snd (hdc_update_font P cfg hdc s))) hdc
              then [SetTextColor_call hdc (get_custom_text_color cfg)] else []) @
             [DrawTextExW_original_call hdc args_ex (fst (orig_ex hdc args_ex (env_at_delegation P cfg hdc s))),
              DeleteObject_call h])"
      and X: "\<not> is_custom_color_enabled cfg \<longrightarrow> X = []"
        "is_custom_color_enabled cfg \<and>
          128 < brightness_of (GetBkColor P (env (snd (hdc_update_font P cfg hdc s))) hdc) \<longrightarrow>
            X = [GetBkColor_call hdc]"
        "is_custom_color_enabled cfg \<and>
          \<not> 128 < brightness_of (GetBkColor P (env (snd (hdc_update_font P cfg hdc s))) hdc) \<longrightarrow>
          (\<exists>Y. X = GetBkColor_call hdc # WindowFromDC_call hdc # Y \<and>
             (\<forall>c \<in> set Y. is_GetParent c \<or> is_GetClassNameW c))"
      by (rule draw_text_exw_hook_run [of P cfg hdc s orig_ex args_ex])
    note cl = classifier_calls_only [OF X]
    note N = calls_made_append [OF c]
    have shape: "filter is_font_lifecycle_call (calls_made s ?s') =
        [CreateFontIndirectW_call font h, DeleteObject_call h]"
      by (rule hook_calls_shape(1) [OF cl N])
        (simp_all add: is_classifier_call_def is_font_lifecycle_call_def)
    have "last (calls ?s') = DeleteObject_call h" by (simp add: c)
    moreover have "raii_get (fst (fst (hdc_update_font P cfg hdc s))) = h"
      by (simp add: f raii_get_def)
    moreover have "calls ?s' = calls s @ calls_made s ?s'" by (simp only: N c)
    ultimately have "\<exists>h font.
      filter is_font_lifecycle_call (calls_made s ?s') =
          [CreateFontIndirectW_call font h, DeleteObject_call h]
      \<and> last (calls ?s') = DeleteObject_call h
      \<and> raii_get (fst (fst (hdc_update_font P cfg hdc s))) = h
      \<and> calls ?s' = calls s @ calls_made s ?s'"
      using shape by blast
  }
  note x = this
  from w x show ?thesis by (rule conjI)
qed

section \<open>The colour override\<close>

lemma draw_textw_hook_effects:
  "(let s' = snd (draw_textw_hook P cfg orig hdc args s);
        e1 = env (snd (hdc_update_font P cfg hdc s));
        light = 128 < brightness_of (GetBkColor P e1 hdc);
        applies = (is_custom_color_enabled cfg \<and> \<not> light \<and> file_list_surface P e1 hdc);
        e2 = (if applies then SetTextColor P hdc (get_custom_text_color cfg) e1 else e1);
        result = fst (orig hdc args e2)
    in fst (draw_textw_hook P cfg orig hdc args s) = result
     \<and> filter is_SetTextColor (calls_made s s') =
         (if applies then [SetTextColor_call hdc (get_custom_text_color cfg)] else [])
     \<and> (\<not> is_custom_color_enabled cfg \<longrightarrow> filter is_classifier_call (calls_made s s') = [])
     \<and> (is_custom_color_enabled cfg \<and> light \<longrightarrow>
          filter is_classifier_call (calls_made s s') = [GetBkColor_call hdc])
     \<and> (is_custom_color_enabled cfg \<and> \<not> light \<longrightarrow>
          take 2 (filter is_classifier_call (calls_made s s')) =
            [GetBkColor_call hdc, WindowFromDC_call hdc])
     \<and> (\<exists>h font. calls_made s s' =
          [GetCurrentObject_call hdc, GetObjectW_call (GetCurrentObject P (env s) hdc),
           CreateFontIndirectW_call font h, SelectObject_call hdc h] @
          filter is_classifier_call (calls_made s s') @
          filter is_SetTextColor (calls_made s s') @
          [DrawTextW_original_call hdc args result, DeleteObject_call h]))"
proof -
  let ?s' = "snd (draw_textw_hook P cfg orig hdc args s)"
  let ?e1 = "env (snd (hdc_update_font P cfg hdc s))"
  let ?li = "128 < brightness_of (GetBkColor P ?e1 hdc)"
  let ?v = "is_custom_color_enabled cfg \<and> \<not> ?li \<and> file_list_surface P ?e1 hdc"
  let ?e2 = "if ?v then SetTextColor P hdc (get_custom_text_color cfg) ?e1 else ?e1"
  let ?r = "fst (orig hdc args ?e2)"
  have ed: "env_at_delegation P cfg hdc s = ?e2"
    by (simp add: env_at_delegation_def color_override_verdict_def is_custom_color_enabled_def Let_def)
  have vd: "color_override_verdict P cfg ?e1 hdc = ?v"
    by (simp add: color_override_verdict_def is_custom_color_enabled_def)
  obtain h font X where
    f: "fst (hdc_update_font P cfg hdc s) = (raii h, font)"
    and r: "fst (draw_textw_hook P cfg orig hdc args s) = ?r"
    and e: "env ?s' = DeleteObject P h (snd (orig hdc args ?e2))"
    and c: "calls ?s' = calls s @
           ([GetCurrentObject_call hdc, GetObjectW_call (GetCurrentObject P (env s) hdc),
            CreateFontIndirectW_call font h, SelectObject_call hdc h] @ X @
           (if ?v then [SetTextColor_call hdc (get_custom_text_color cfg)] else []) @
           [DrawTextW_original_call hdc args ?r, DeleteObject_call h])"
    and X: "\<not> is_custom_color_enabled cfg \<longrightarrow> X = []"
      "is_custom_color_enabled cfg \<and> ?li \<longrightarrow> X = [GetBkColor_call hdc]"
      "is_custom_color_enabled cfg \<and> \<not> ?li \<longrightarrow>
        (\<exists>Y. X = GetBkColor_call hdc # WindowFromDC_call hdc # Y \<and>
           (\<forall>c \<in> set Y. is_GetParent c \<or> is_GetClassNameW c))"
    by (rule draw_textw_hook_run [of P cfg hdc s orig args, unfolded ed vd])
  note cl = classifier_calls_only [OF X]
  note N = calls_made_append [OF c]
  have f1: "filter is_classifier_call (calls_made s ?s') = X"
    by (rule hook_calls_shape(2) [OF cl N])
      (simp_all add: is_classifier_call_def is_font_lifecycle_call_def)
  have f2: "filter is_SetTextColor (calls_made s ?s') =
      (if ?v then [SetTextColor_call hdc (get_custom_text_color cfg)] else [])"
    by (rule hook_calls_shape(3) [OF cl N])
      (simp_all add: is_classifier_call_def is_font_lifecycle_call_def)
  have t2: "take 2 X = [GetBkColor_call hdc, WindowFromDC_call hdc]"
    if "is_custom_color_enabled cfg \<and> \<not> ?li"
  proof -
    from that X(3) obtain Y where "X = GetBkColor_call hdc # WindowFromDC_call hdc # Y" by blast
    then show ?thesis by simp
  qed
  have whole: "\<exists>h font. calls_made s ?s' =
          [GetCurrentObject_call hdc, GetObjectW_call (GetCurrentObject P (env s) hdc),
           CreateFontIndirectW_call font h, SelectObject_call hdc h] @
          filter is_classifier_call (calls_made s ?s') @
          filter is_SetTextColor (calls_made s ?s') @
          [DrawTextW_original_call hdc args ?r, DeleteObject_call h]"
    unfolding f1 f2 using N by blast
  show ?thesis
    unfolding Let_def
  proof (intro conjI)
    show "fst (draw_textw_hook P cfg orig hdc args s) = ?r" by (rule r)
    show "filter is_SetTextColor (calls_made s ?s') =
      (if ?v then [SetTextColor_call hdc (get_custom_text_color cfg)] else [])" by (rule f2)
    show "\<not> is_custom_color_enabled cfg \<longrightarrow> filter is_classifier_call (calls_made s ?s') = []"
      using X(1) by (simp only: f1)
    show "is_custom_color_enabled cfg \<and> ?li \<longrightarrow>
        filter is_classifier_call (calls_made s ?s') = [GetBkColor_call hdc]"
      using X(2) by (simp only: f1)
    show "is_custom_color_enabled cfg \<and> \<not> ?li \<longrightarrow>
        take 2 (filter is_classifier_call (calls_made s ?s')) =
          [GetBkColor_call hdc, WindowFromDC_call hdc]"
      using t2 by (simp only: f1) blast
    show "\<exists>h font. calls_made s ?s' =
          [GetCurrentObject_call hdc, GetObjectW_call (GetCurrentObject P (env s) hdc),
           CreateFontIndirectW_call font h, SelectObject_call hdc h] @
          filter is_classifier_call (calls_made s ?s') @
          filter is_SetTextColor (calls_made s ?s') @
          [DrawTextW_original_call hdc args ?r, DeleteObject_call h]" by (rule whole)
  qed
qed

lemma draw_text_exw_hook_effects:
  "(let s' = snd (draw_text_exw_hook P cfg orig_ex hdc args_ex s);
        e1 = env (snd (hdc_update_font P cfg hdc s));
        light = 128 < brightness_of (GetBkColor P e1 hdc);
        applies = (is_custom_color_enabled cfg \<and> \<not> light \<and> file_list_surface P e1 hdc);
        e2 = (if applies then SetTextColor P hdc (get_custom_text_color cfg) e1 else e1);
        result = fst (orig_ex hdc args_ex e2)
    in fst (draw_text_exw_hook P cfg orig_ex hdc args_ex s) = result
     \<and> filter is_SetTextColor (calls_made s s') =
         (if applies then [SetTextColor_call hdc (get_custom_text_color cfg)] else [])
     \<and> (\<not> is_custom_color_enabled cfg \<longrightarrow> filter is_classifier_call (calls_made s s') = [])
     \<and> (is_custom_color_enabled cfg \<and> light \<longrightarrow>
          filter is_classifier_call (calls_made s s') = [GetBkColor_call hdc])
     \<and> (is_custom_color_enabled cfg \<and> \<not> light \<longrightarrow>
          take 2 (filter is_classifier_call (calls_made s s')) =
            [GetBkColor_call hdc, WindowFromDC_call hdc])
     \<and> (\<exists>h font. calls_made s s' =
          [GetCurrentObject_call hdc, GetObjectW_call (GetCurrentObject P (env s) hdc),
           CreateFontIndirectW_call font h, SelectObject_call hdc h] @
          filter is_classifier_call (calls_made s s') @
          filter is_SetTextColor (calls_made s s') @
          [DrawTextExW_original_call hdc args_ex result, DeleteObject_call h]))"
proof -
  let ?s' = "snd (draw_text_exw_hook P cfg orig_ex hdc args_ex s)"
  let ?e1 = "env (snd (hdc_update_font P cfg hdc s))"
  let ?li = "128 < brightness_of (GetBkColor P ?e1 hdc)"
  let ?v = "is_custom_color_enabled cfg \<and> \<not> ?li \<and> file_list_surface P ?e1 hdc"
  let ?e2 = "if ?v then SetTextColor P hdc (get_custom_text_color cfg) ?e1 else ?e1"
  let ?r = "fst (orig_ex hdc args_ex ?e2)"
  have ed: "env_at_delegation P cfg hdc s = ?e2"
    by (simp add: env_at_delegation_def color_override_verdict_def is_custom_color_enabled_def Let_def)
  have vd: "color_override_verdict P cfg ?e1 hdc = ?v"
    by (simp add: color_override_verdict_def is_custom_color_enabled_def)
  obtain h font X where
    f: "fst (hdc_update_font P cfg hdc s) = (raii h, font)"
    and r: "fst (draw_text_exw_hook P cfg orig_ex hdc args_ex s) = ?r"
    and e: "env ?s' = DeleteObject P h (snd (orig_ex hdc args_ex ?e2))"
    and c: "calls ?s' = calls s @
           ([GetCurrentObject_call hdc, GetObjectW_call (GetCurrentObject P (env s) hdc),
            CreateFontIndirectW_call font h, SelectObject_call hdc h] @ X @
           (if ?v then [SetTextColor_call hdc (get_custom_text_color cfg)] else []) @
           [DrawTextExW_original_call hdc args_ex ?r, DeleteObject_call h])"
    and X: "\<not> is_custom_color_enabled cfg \<longrightarrow> X = []"
      "is_custom_color_enabled cfg \<and> ?li \<longrightarrow> X = [GetBkColor_call hdc]"
      "is_custom_color_enabled cfg \<and> \<not> ?li \<longrightarrow>
        (\<exists>Y. X = GetBkColor_call hdc # WindowFromDC_call hdc # Y \<and>
           (\<forall>c \<in> set Y. is_GetParent c \<or> is_GetClassNameW c))"
    by (rule draw_text_exw_hook_run [of P cfg hdc s orig_ex args_ex, unfolded ed vd])
  note cl = classifier_calls_only [OF X]
  note N = calls_made_append [OF c]
  have f1: "filter is_classifier_call (calls_made s ?s') = X"
    by (rule hook_calls_shape(2) [OF cl N])
      (simp_all add: is_classifier_call_def is_font_lifecycle_call_def)
  have f2: "filter is_SetTextColor (calls_made s ?s') =
      (if ?v then [SetTextColor_call hdc (get_custom_text_color cfg)] else [])"
    by (rule hook_calls_shape(3) [OF cl N])
      (simp_all add: is_classifier_call_def is_font_lifecycle_call_def)
  have t2: "take 2 X = [GetBkColor_call hdc, WindowFromDC_call hdc]"
    if "is_custom_color_enabled cfg \<and> \<not> ?li"
  proof -
    from that X(3) obtain Y where "X = GetBkColor_call hdc # WindowFromDC_call hdc # Y" by blast
    then show ?thesis by simp
  qed
  have whole: "\<exists>h font. calls_made s ?s' =
          [GetCurrentObject_call hdc, GetObjectW_call (GetCurrentObject P (env s) hdc),
           CreateFontIndirectW_call font h, SelectObject_call hdc h] @
          filter is_classifier_call (calls_made s ?s') @
          filter is_SetTextColor (calls_made s ?s') @
          [DrawTextExW_original_call hdc args_ex ?r, DeleteObject_call h]"
    unfolding f1 f2 using N by blast
  show ?thesis
    unfolding Let_def
  proof (intro conjI)
    show "fst (draw_text_exw_hook P cfg orig_ex hdc args_ex s) = ?r" by (rule r)
    show "filter is_SetTextColor (calls_made s ?s') =
      (if ?v then [SetTextColor_call hdc (get_custom_text_color cfg)] else [])" by (rule f2)
    show "\<not> is_custom_color_enabled cfg \<longrightarrow> filter is_classifier_call (calls_made s ?s') = []"
      using X(1) by (simp only: f1)
    show "is_custom_color_enabled cfg \<and> ?li \<longrightarrow>
        filter is_classifier_call (calls_made s ?s') = [GetBkColor_call hdc]"
      using X(2) by (simp only: f1)
    show "is_custom_color_enabled cfg \<and> \<not> ?li \<longrightarrow>
        take 2 (filter is_classifier_call (calls_made s ?s')) =
          [GetBkColor_call hdc, WindowFromDC_call hdc]"
      using t2 by (simp only: f1) blast
    show "\<exists>h font. calls_made s ?s' =
          [GetCurrentObject_call hdc, GetObjectW_call (GetCurrentObject P (env s) hdc),
           CreateFontIndirectW_call font h, SelectObject_call hdc h] @
          filter is_classifier_call (calls_made s ?s') @
          filter is_SetTextColor (calls_made s ?s') @
          [DrawTextExW_original_call hdc args_ex ?r, DeleteObject_call h]" by (rule whole)
  qed
qed

text \<open>
  Claim C3. In a call of either hook, with \<open>e1\<close> the environment that the font update
  leaves: the original function runs in \<open>e1\<close> with the configured colour set as text
  colour when the override is enabled, the background of \<open>e1\<close> is not light and the
  surface is a file-list view, and in \<open>e1\<close> itself otherwise; the hook calls
  \<^verbatim>\<open>SetTextColor\<close> once with that colour in the first case and never in the second. The
  classifier is not asked anything when the override is disabled, is asked the background
  colour only when the background is light, and is asked the background colour first and
  the window second otherwise. These calls come after the font update, the
  \<^verbatim>\<open>SetTextColor\<close> call comes after them, and the original function and the release of
  the font come last.
\<close>

theorem hook_color_override:
  "(let s' = snd (draw_textw_hook P cfg orig hdc args s);
        e1 = env (snd (hdc_update_font P cfg hdc s));
        light = 128 < brightness_of (GetBkColor P e1 hdc);
        applies = (is_custom_color_enabled cfg \<and> \<not> light \<and> file_list_surface P e1 hdc);
        e2 = (if applies then SetTextColor P hdc (get_custom_text_color cfg) e1 else e1);
        result = fst (orig hdc args e2)
    in fst (draw_textw_hook P cfg orig hdc args s) = result
     \<and> filter is_SetTextColor (calls_made s s') =
         (if applies then [SetTextColor_call hdc (get_custom_text_color cfg)] else [])
     \<and> (\<not> is_custom_color_enabled cfg \<longrightarrow> filter is_classifier_call (calls_made s s') = [])
     \<and> (is_custom_color_enabled cfg \<and> light \<longrightarrow>
          filter is_classifier_call (calls_made s s') = [GetBkColor_call hdc])
     \<and> (is_custom_color_enabled cfg \<and> \<not> light \<longrightarrow>
          take 2 (filter is_classifier_call (calls_made s s')) =
            [GetBkColor_call hdc, WindowFromDC_call hdc])
     \<and> (\<exists>h font. calls_made s s' =
          [GetCurrentObject_call hdc, GetObjectW_call (GetCurrentObject P (env s) hdc),
           CreateFontIndirectW_call font h, SelectObject_call hdc h] @
          filter is_classifier_call (calls_made s s') @
          filter is_SetTextColor (calls_made s s') @
          [DrawTextW_original_call hdc args result, DeleteObject_call h]))
   \<and> (let s' = snd (draw_text_exw_hook P cfg orig_ex hdc args_ex s);
        e1 = env (snd (hdc_update_font P cfg hdc s));
        light = 128 < brightness_of (GetBkColor P e1 hdc);
        applies = (is_custom_color_enabled cfg \<and> \<not> light \<and> file_list_surface P e1 hdc);
        e2 = (if applies then SetTextColor P hdc (get_custom_text_color cfg) e1 else e1);
        result = fst (orig_ex hdc args_ex e2)
    in fst (draw_text_exw_hook P cfg orig_ex hdc args_ex s) = result
     \<and> filter is_SetTextColor (calls_made s s') =
         (if applies then [SetTextColor_call hdc (get_custom_text_color cfg)] else [])
     \<and> (\<not> is_custom_color_enabled cfg \<longrightarrow> filter is_classifier_call (calls_made s s') = [])
     \<and> (is_custom_color_enabled cfg \<and> light \<longrightarrow>
          filter is_classifier_call (calls_made s s') = [GetBkColor_call hdc])
     \<and> (is_custom_color_enabled cfg \<and> \<not> light \<longrightarrow>
          take 2 (filter is_classifier_call (calls_made s s')) =
            [GetBkColor_call hdc, WindowFromDC_call hdc])
     \<and> (\<exists>h font. calls_made s s' =
          [GetCurrentObject_call hdc, GetObjectW_call (GetCurrentObject P (env s) hdc),
           CreateFontIndirectW_call font h, SelectObject_call hdc h] @
          filter is_classifier_call (calls_made s s') @
          filter is_SetTextColor (calls_made s s') @
          [DrawTextExW_original_call hdc args_ex result, DeleteObject_call h]))"
  using draw_textw_hook_effects [of P cfg orig hdc args s]
    draw_text_exw_hook_effects [of P cfg orig_ex hdc args_ex s]
  by (rule conjI)

text \<open>
  On the small desktop, with an original function that returns the text colour it
  finds: the red override on the dark list view, where the original function finds red;
  the same on the light list view, where it finds the black that was there and only the
  background colour was asked for; and the override disabled, where nothing was asked.
\<close>

theorem hook_color_override_witness:
  "is_custom_color_enabled red_settings
   \<and> \<not> 128 < brightness_of (GetBkColor desktop_platform (env (snd (hdc_update_font desktop_platform red_settings 5 (on_desktop dark_list_view)))) 5)
   \<and> fst (draw_textw_hook desktop_platform red_settings text_color_probe 5 some_args (on_desktop dark_list_view)) = RGB 255 0 0
   \<and> take 2 (filter is_classifier_call (calls_made (on_desktop dark_list_view) (snd (draw_textw_hook desktop_platform red_settings text_color_probe 5 some_args (on_desktop dark_list_view))))) = [GetBkColor_call 5, WindowFromDC_call 5]
   \<and> fst (draw_text_exw_hook desktop_platform red_settings text_color_probe 5 some_ex_args (on_desktop dark_list_view)) = RGB 255 0 0
   \<and> take 2 (filter is_classifier_call (calls_made (on_desktop dark_list_view) (snd (draw_text_exw_hook desktop_platform red_settings text_color_probe 5 some_ex_args (on_desktop dark_list_view))))) = [GetBkColor_call 5, WindowFromDC_call 5]
   \<and> is_custom_color_enabled red_settings
   \<and> 128 < brightness_of (GetBkColor desktop_platform (env (snd (hdc_update_font desktop_platform red_settings 5 (on_desktop light_list_view)))) 5)
   \<and> fst (draw_textw_hook desktop_platform red_settings text_color_probe 5 some_args (on_desktop light_list_view)) = RGB 0 0 0
   \<and> filter is_classifier_call (calls_made (on_desktop light_list_view) (snd (draw_textw_hook desktop_platform red_settings text_color_probe 5 some_args (on_desktop light_list_view)))) = [GetBkColor_call 5]
   \<and> fst (draw_text_exw_hook desktop_platform red_settings text_color_probe 5 some_ex_args (on_desktop light_list_view)) = RGB 0 0 0
   \<and> filter is_classifier_call (calls_made (on_desktop light_list_view) (snd (draw_text_exw_hook desktop_platform red_settings text_color_probe 5 some_ex_args (on_desktop light_list_view)))) = [GetBkColor_call 5]
   \<and> \<not> is_custom_color_enabled disabled_settings
   \<and> fst (draw_textw_hook desktop_platform disabled_settings text_color_probe 5 some_args (on_desktop dark_list_view)) = RGB 0 0 0
   \<and> filter is_classifier_call (calls_made (on_desktop dark_list_view) (snd (draw_textw_hook desktop_platform disabled_settings text_color_probe 5 some_args (on_desktop dark_list_view)))) = []
   \<and> fst (draw_text_exw_hook desktop_platform disabled_settings text_color_probe 5 some_ex_args (on_desktop dark_list_view)) = RGB 0 0 0
   \<and> filter is_classifier_call (calls_made (on_desktop dark_list_view) (snd (draw_text_exw_hook desktop_platform disabled_settings text_color_probe 5 some_ex_args (on_desktop dark_list_view)))) = []"
proof -
  note t_dark = hook_color_override [where P = desktop_platform and cfg = red_settings and orig = text_color_probe
    and hdc = 5 and args = some_args and s = "on_desktop dark_list_view" and orig_ex = text_color_probe
    and args_ex = some_ex_args, unfolded Let_def]
  have h1: "is_custom_color_enabled red_settings" by code_simp
  have h2: "\<not> 128 < brightness_of (GetBkColor desktop_platform (env (snd (hdc_update_font desktop_platform red_settings 5 (on_desktop dark_list_view)))) 5)" by code_simp
  have v3: "fst (text_color_probe 5 some_args (if (is_custom_color_enabled red_settings \<and> \<not> 128 < brightness_of (GetBkColor desktop_platform (env (snd (hdc_update_font desktop_platform red_settings 5 (on_desktop dark_list_view)))) 5) \<and> file_list_surface desktop_platform (env (snd (hdc_update_font desktop_platform red_settings 5 (on_desktop dark_list_view)))) 5) then SetTextColor desktop_platform 5 (get_custom_text_color red_settings) (env (snd (hdc_update_font desktop_platform red_settings 5 (on_desktop dark_list_view)))) else (env (snd (hdc_update_font desktop_platform red_settings 5 (on_desktop dark_list_view)))))) = RGB 255 0 0" by code_simp
  have r4: "fst (draw_textw_hook desktop_platform red_settings text_color_probe 5 some_args (on_desktop dark_list_view)) = RGB 255 0 0"
    using t_dark v3 by simp
  have c5: "take 2 (filter is_classifier_call (calls_made (on_desktop dark_list_view) (snd (draw_textw_hook desktop_platform red_settings text_color_probe 5 some_args (on_desktop dark_list_view))))) = [GetBkColor_call 5, WindowFromDC_call 5]"
    using t_dark h1 h2 by blast
  have v6: "fst (text_color_probe 5 some_ex_args (if (is_custom_color_enabled red_settings \<and> \<not> 128 < brightness_of (GetBkColor desktop_platform (env (snd (hdc_update_font desktop_platform red_settings 5 (on_desktop dark_list_view)))) 5) \<and> file_list_surface desktop_platform (env (snd (hdc_update_font desktop_platform red_settings 5 (on_desktop dark_list_view)))) 5) then SetTextColor desktop_platform 5 (get_custom_text_color red_settings) (env (snd (hdc_update_font desktop_platform red_settings 5 (on_desktop dark_list_view)))) else (env (snd (hdc_update_font desktop_platform red_settings 5 (on_desktop dark_list_view)))))) = RGB 255 0 0" by code_simp
  have r7: "fst (draw_text_exw_hook desktop_platform red_settings text_color_probe 5 some_ex_args (on_desktop dark_list_view)) = RGB 255 0 0"
    using t_dark v6 by simp
  have c8: "take 2 (filter is_classifier_call (calls_made (on_desktop dark_list_view) (snd (draw_text_exw_hook desktop_platform red_settings text_color_probe 5 some_ex_args (on_desktop dark_list_view))))) = [GetBkColor_call 5, WindowFromDC_call 5]"
    using t_dark h1 h2 by blast
  note t_light = hook_color_override [where P = desktop_platform and cfg = red_settings and orig = text_color_probe
    and hdc = 5 and args = some_args and s = "on_desktop light_list_view" and orig_ex = text_color_probe
    and args_ex = some_ex_args, unfolded Let_def]
  have h9: "is_custom_color_enabled red_settings" by code_simp
  have h10: "128 < brightness_of (GetBkColor desktop_platform (env (snd (hdc_update_font desktop_platform red_settings 5 (on_desktop light_list_view)))) 5)" by code_simp
  have v11: "fst (text_color_probe 5 some_args (if (is_custom_color_enabled red_settings \<and> \<not> 128 < brightness_of (GetBkColor desktop_platform (env (snd (hdc_update_font desktop_platform red_settings 5 (on_desktop light_list_view)))) 5) \<and> file_list_surface desktop_platform (env (snd (hdc_update_font desktop_platform red_settings 5 (on_desktop light_list_view)))) 5) then SetTextColor desktop_platform 5 (get_custom_text_color red_settings) (env (snd (hdc_update_font desktop_platform red_settings 5 (on_desktop light_list_view)))) else (env (snd (hdc_update_font desktop_platform red_settings 5 (on_desktop light_list_view)))))) = RGB 0 0 0" by code_simp
  have r12: "fst (draw_textw_hook desktop_platform red_settings text_color_probe 5 some_args (on_desktop light_list_view)) = RGB 0 0 0"
    using t_light v11 by simp
  have c13: "filter is_classifier_call (calls_made (on_desktop light_list_view) (snd (draw_textw_hook desktop_platform red_settings text_color_probe 5 some_args (on_desktop light_list_view)))) = [GetBkColor_call 5]"
    using t_light h9 h10 by blast
  have v14: "fst (text_color_probe 5 some_ex_args (if (is_custom_color_enabled red_settings \<and> \<not> 128 < brightness_of (GetBkColor desktop_platform (env (snd (hdc_update_font desktop_platform red_settings 5 (on_desktop light_list_view)))) 5) \<and> file_list_surface desktop_platform (env (snd (hdc_update_font desktop_platform red_settings 5 (on_desktop light_list_view)))) 5) then SetTextColor desktop_platform 5 (get_custom_text_color red_settings) (env (snd (hdc_update_font desktop_platform red_settings 5 (on_desktop light_list_view)))) else (env (snd (hdc_update_font desktop_platform red_settings 5 (on_desktop light_list_view)))))) = RGB 0 0 0" by code_simp
  have r15: "fst (draw_text_exw_hook desktop_platform red_settings text_color_probe 5 some_ex_args (on_desktop light_list_view)) = RGB 0 0 0"
    using t_light v14 by simp
  have c16: "filter is_classifier_call (calls_made (on_desktop light_list_view) (snd (draw_text_exw_hook desktop_platform red_settings text_color_probe 5 some_ex_args (on_desktop light_list_view)))) = [GetBkColor_call 5]"
    using t_light h9 h10 by blast
  note t_off = hook_color_override [where P = desktop_platform and cfg = disabled_settings and orig = text_color_probe
    and hdc = 5 and args = some_args and s = "on_desktop dark_list_view" and orig_ex = text_color_probe
    and args_ex = some_ex_args, unfolded Let_def]
  have h17: "\<not> is_custom_color_enabled disabled_settings" by code_simp
  have v18: "fst (text_color_probe 5 some_args (if (is_custom_color_enabled disabled_settings \<and> \<not> 128 < brightness_of (GetBkColor desktop_platform (env (snd (hdc_update_font desktop_platform disabled_settings 5 (on_desktop dark_list_view)))) 5) \<and> file_list_surface desktop_platform (env (snd (hdc_update_font desktop_platform disabled_settings 5 (on_desktop dark_list_view)))) 5) then SetTextColor desktop_platform 5 (get_custom_text_color disabled_settings) (env (snd (hdc_update_font desktop_platform disabled_settings 5 (on_desktop dark_list_view)))) else (env (snd (hdc_update_font desktop_platform disabled_settings 5 (on_desktop dark_list_view)))))) = RGB 0 0 0" by code_simp
  have r19: "fst (draw_textw_hook desktop_platform disabled_settings text_color_probe 5 some_args (on_desktop dark_list_view)) = RGB 0 0 0"
    using t_off v18 by simp
  have c20: "filter is_classifier_call (calls_made (on_desktop dark_list_view) (snd (draw_textw_hook desktop_platform disabled_settings text_color_probe 5 some_args (on_desktop dark_list_view)))) = []"
    using t_off h17 by blast
  have v21: "fst (text_color_probe 5 some_ex_args (if (is_custom_color_enabled disabled_settings \<and> \<not> 128 < brightness_of (GetBkColor desktop_platform (env (snd (hdc_update_font desktop_platform disabled_settings 5 (on_desktop dark_list_view)))) 5) \<and> file_list_surface desktop_platform (env (snd (hdc_update_font desktop_platform disabled_settings 5 (on_desktop dark_list_view)))) 5) then SetTextColor desktop_platform 5 (get_custom_text_color disabled_settings) (env (snd (hdc_update_font desktop_platform disabled_settings 5 (on_desktop dark_list_view)))) else (env (snd (hdc_update_font desktop_platform disabled_settings 5 (on_desktop dark_list_view)))))) = RGB 0 0 0" by code_simp
  have r22: "fst (draw_text_exw_hook desktop_platform disabled_settings text_color_probe 5 some_ex_args (on_desktop dark_list_view)) = RGB 0 0 0"
    using t_off v21 by simp
  have c23: "filter is_classifier_call (calls_made (on_desktop dark_list_view) (snd (draw_text_exw_hook desktop_platform disabled_settings text_color_probe 5 some_ex_args (on_desktop dark_list_view)))) = []"
    using t_off h17 by blast
  show ?thesis
    by (intro conjI) (fact h1 h2 r4 c5 r7 c8 h9 h10 r12 c13 r15 c16 h17 r19 c20 r22 c23)+
qed

text \<open>
  Claim C10. The flag that the hooks read, after \<open>update_settings\<close>, \<open>Wh_ModInit\<close> or
  \<open>Wh_ModSettingsChanged\<close>, is true exactly when the integer stored under
  \<^verbatim>\<open>font.customColor\<close> is 1. For any other stored value a call of either hook makes no
  \<^verbatim>\<open>SetTextColor\<close> call, asks the classifier nothing, and runs the original function in
  the environment that the font update leaves.
\<close>

theorem custom_color_enabled_iff_one:
  "is_custom_color_enabled (update_settings st) = (Wh_GetIntSetting st (wstr ''font.customColor'') = 1)
   \<and> is_custom_color_enabled (globals (snd (Wh_ModInit st ld m))) = (Wh_GetIntSetting st (wstr ''font.customColor'') = 1)
   \<and> is_custom_color_enabled (globals (Wh_ModSettingsChanged st m)) = (Wh_GetIntSetting st (wstr ''font.customColor'') = 1)
   \<and> (Wh_GetIntSetting st (wstr ''font.customColor'') \<noteq> 1 \<longrightarrow>
      filter is_SetTextColor
          (calls_made s (snd (draw_textw_hook P (update_settings st) orig hdc args s))) = []
      \<and> filter is_classifier_call
          (calls_made s (snd (draw_textw_hook P (update_settings st) orig hdc args s))) = []
      \<and> fst (draw_textw_hook P (update_settings st) orig hdc args s) =
          fst (orig hdc args (env (snd (hdc_update_font P (update_settings st) hdc s))))
      \<and> filter is_SetTextColor
          (calls_made s (snd (draw_text_exw_hook P (update_settings st) orig_ex hdc args_ex s))) = []
      \<and> filter is_classifier_call
          (calls_made s (snd (draw_text_exw_hook P (update_settings st) orig_ex hdc args_ex s))) = []
      \<and> fst (draw_text_exw_hook P (update_settings st) orig_ex hdc args_ex s) =
          fst (orig_ex hdc args_ex (env (snd (hdc_update_font P (update_settings st) hdc s)))))"
proof -
  have flag: "is_custom_color_enabled (update_settings st) = (Wh_GetIntSetting st (wstr ''font.customColor'') = 1)"
    by (simp add: is_custom_color_enabled_def update_settings_def)
  have init: "globals (snd (Wh_ModInit st ld m)) = update_settings st"
    by (simp add: Wh_ModInit_def Wh_SetFunctionHook_def Let_def)
  have changed: "globals (Wh_ModSettingsChanged st m) = update_settings st"
    by (simp add: Wh_ModSettingsChanged_def)
  have off: "filter is_SetTextColor
          (calls_made s (snd (draw_textw_hook P (update_settings st) orig hdc args s))) = []
      \<and> filter is_classifier_call
          (calls_made s (snd (draw_textw_hook P (update_settings st) orig hdc args s))) = []
      \<and> fst (draw_textw_hook P (update_settings st) orig hdc args s) =
          fst (orig hdc args (env (snd (hdc_update_font P (update_settings st) hdc s))))
      \<and> filter is_SetTextColor
          (calls_made s (snd (draw_text_exw_hook P (update_settings st) orig_ex hdc args_ex s))) = []
      \<and> filter is_classifier_call
          (calls_made s (snd (draw_text_exw_hook P (update_settings st) orig_ex hdc args_ex s))) = []
      \<and> fst (draw_text_exw_hook P (update_settings st) orig_ex hdc args_ex s) =
          fst (orig_ex hdc args_ex (env (snd (hdc_update_font P (update_settings st) hdc s))))"
    if "Wh_GetIntSetting st (wstr ''font.customColor'') \<noteq> 1"
  proof -
    from that flag have d: "\<not> is_custom_color_enabled (update_settings st)" by simp
    show ?thesis
      using draw_textw_hook_effects [of P "update_settings st" orig hdc args s]
        draw_text_exw_hook_effects [of P "update_settings st" orig_ex hdc args_ex s] d
      by (simp add: Let_def)
  qed
  show ?thesis
    unfolding init changed
    using flag off by blast
qed

text \<open>
  The stored values 2 and -1: the flag is false and neither hook sets the text colour.
\<close>

theorem custom_color_enabled_iff_one_witness:
  "Wh_GetIntSetting (store_with_custom_color 2) (wstr ''font.customColor'') \<noteq> 1
   \<and> \<not> is_custom_color_enabled (update_settings (store_with_custom_color 2))
   \<and> filter is_SetTextColor
       (calls_made (on_desktop dark_list_view)
         (snd (draw_textw_hook desktop_platform (update_settings (store_with_custom_color 2)) text_color_probe 5 some_args
           (on_desktop dark_list_view)))) = []
   \<and> filter is_SetTextColor
       (calls_made (on_desktop dark_list_view)
         (snd (draw_text_exw_hook desktop_platform (update_settings (store_with_custom_color 2)) text_color_probe 5 some_ex_args
           (on_desktop dark_list_view)))) = []
   \<and> Wh_GetIntSetting (store_with_custom_color (- 1)) (wstr ''font.customColor'') \<noteq> 1
   \<and> \<not> is_custom_color_enabled (update_settings (store_with_custom_color (- 1)))
   \<and> filter is_SetTextColor
       (calls_made (on_desktop dark_list_view)
         (snd (draw_textw_hook desktop_platform (update_settings (store_with_custom_color (- 1))) text_color_probe 5 some_args
           (on_desktop dark_list_view)))) = []
   \<and> filter is_SetTextColor
       (calls_made (on_desktop dark_list_view)
         (snd (draw_text_exw_hook desktop_platform (update_settings (store_with_custom_color (- 1))) text_color_probe 5 some_ex_args
           (on_desktop dark_list_view)))) = []"
proof -
  have k0: "Wh_GetIntSetting (store_with_custom_color 2) (wstr ''font.customColor'') \<noteq> 1" by (simp add: store_with_custom_color_def)
  note t0 = custom_color_enabled_iff_one [where st = "store_with_custom_color 2" and P = desktop_platform
    and orig = text_color_probe and hdc = 5 and args = some_args and s = "on_desktop dark_list_view"
    and orig_ex = text_color_probe and args_ex = some_ex_args]
  have e0: "\<not> is_custom_color_enabled (update_settings (store_with_custom_color 2))"
    using t0 k0 by blast
  have c00: "filter is_SetTextColor
       (calls_made (on_desktop dark_list_view)
         (snd (draw_textw_hook desktop_platform (update_settings (store_with_custom_color 2)) text_color_probe 5 some_args
           (on_desktop dark_list_view)))) = []"
    using t0 k0 by blast
  have c01: "filter is_SetTextColor
       (calls_made (on_desktop dark_list_view)
         (snd (draw_text_exw_hook desktop_platform (update_settings (store_with_custom_color 2)) text_color_probe 5 some_ex_args
           (on_desktop dark_list_view)))) = []"
    using t0 k0 by blast
  have k1: "Wh_GetIntSetting (store_with_custom_color (- 1)) (wstr ''font.customColor'') \<noteq> 1" by (simp add: store_with_custom_color_def)
  note t1 = custom_color_enabled_iff_one [where st = "store_with_custom_color (- 1)" and P = desktop_platform
    and orig = text_color_probe and hdc = 5 and args = some_args and s = "on_desktop dark_list_view"
    and orig_ex = text_color_probe and args_ex = some_ex_args]
  have e1: "\<not> is_custom_color_enabled (update_settings (store_with_custom_color (- 1)))"
    using t1 k1 by blast
  have c10: "filter is_SetTextColor
       (calls_made (on_desktop dark_list_view)
         (snd (draw_textw_hook desktop_platform (update_settings (store_with_custom_color (- 1))) text_color_probe 5 some_args
           (on_desktop dark_list_view)))) = []"
    using t1 k1 by blast
  have c11: "filter is_SetTextColor
       (calls_made (on_desktop dark_list_view)
         (snd (draw_text_exw_hook desktop_platform (update_settings (store_with_custom_color (- 1))) text_color_probe 5 some_ex_args
           (on_desktop dark_list_view)))) = []"
    using t1 k1 by blast
  show ?thesis
    by (intro conjI) (fact k0 e0 c00 c01 k1 e1 c10 c11)+
qed

end
